theory Spec2Isabelle
  imports Complex_Main "HOL-Library.Char_ord" "HOL-Library.List_Lexorder" "HOL-Library.AList"
begin

section \<open>Colonyzer driver scripts: parseAndRun.py and timecourse\_fixedpos.py\<close>

text \<open>
  The two scripts under \<^verbatim>\<open>scripts/\<close> drive the \<^verbatim>\<open>colonyzer2\<close> library over a
  directory of plate photographs. The model below follows their source text function by
  function. Calls into \<^verbatim>\<open>colonyzer2\<close>, whose source is not part of the scripts, are
  fields of a record of library functions, so every theorem about the scripts holds for
  any behaviour of the library. Python exceptions are values of type \<open>error\<close>; a
  function that can raise returns \<open>error + 'a\<close> with \<open>Inl\<close> the exception.
  So are the calls of the Python runtime that can raise on the way (\<^verbatim>\<open>argparse\<close>,
  \<^verbatim>\<open>int\<close>, \<^verbatim>\<open>os.getcwd\<close>, \<^verbatim>\<open>os.path.realpath\<close>, \<^verbatim>\<open>os.path.exists\<close>).
  Pixel intensities and thresholds are exact rationals: rounding, infinities and NaN of
  IEEE floats are outside the model. Writing to the console is taken to succeed and is
  not modelled.
\<close>

subsection \<open>Exceptions\<close>

datatype error =
    NameError string      \<comment> \<open>also its subclass UnboundLocalError; the argument is the name\<close>
  | ValueError
  | IndexError
  | KeyError string
  | IOError string
  | OSError string        \<comment> \<open>FileNotFoundError, PermissionError and the like\<close>
  | SystemExit            \<comment> \<open>argparse rejecting the command line\<close>
  | LibraryError string   \<comment> \<open>any exception raised inside colonyzer2\<close>

subsection \<open>Python strings and POSIX paths\<close>

type_synonym path = string

text \<open>\<^verbatim>\<open>s[-n:]\<close> and \<^verbatim>\<open>s[0:-n]\<close> for a positive literal \<open>n\<close>.\<close>

definition py_suffix :: "nat \<Rightarrow> 'a list \<Rightarrow> 'a list" where
  "py_suffix n s = drop (length s - n) s"

definition py_drop_suffix :: "nat \<Rightarrow> 'a list \<Rightarrow> 'a list" where
  "py_drop_suffix n s = take (length s - n) s"

text \<open>\<^verbatim>\<open>s.split(".")[0]\<close>: the text before the first dot.\<close>

definition split_dot_0 :: "string \<Rightarrow> string" where
  "split_dot_0 s = takeWhile (\<lambda>c. c \<noteq> CHR ''.'') s"

text \<open>\<^verbatim>\<open>posixpath.basename\<close>: the text after the last slash.\<close>

definition basename :: "path \<Rightarrow> string" where
  "basename p = rev (takeWhile (\<lambda>c. c \<noteq> CHR ''/'') (rev p))"

text \<open>\<^verbatim>\<open>posixpath.dirname\<close>: the text up to and including the last slash, with
  trailing slashes removed unless it consists of slashes only.\<close>

definition dirname :: "path \<Rightarrow> string" where
  "dirname p =
     (let h = rev (dropWhile (\<lambda>c. c \<noteq> CHR ''/'') (rev p))
      in if h \<noteq> [] \<and> \<not> list_all (\<lambda>c. c = CHR ''/'') h
         then rev (dropWhile (\<lambda>c. c = CHR ''/'') (rev h))
         else h)"

text \<open>\<^verbatim>\<open>posixpath.join\<close>, two arguments at a time.\<close>

definition join2 :: "path \<Rightarrow> path \<Rightarrow> path" where
  "join2 a b =
     (if b \<noteq> [] \<and> hd b = CHR ''/'' then b
      else if a = [] \<or> last a = CHR ''/'' then a @ b
      else a @ ''/'' @ b)"

definition join :: "path \<Rightarrow> path list \<Rightarrow> path" where
  "join a ps = foldl join2 a ps"

subsection \<open>The library and operating-system interface\<close>

text \<open>The namespace that \<^verbatim>\<open>parseArgs\<close> of parseAndRun.py returns, and the one
  that \<^verbatim>\<open>parseArgs\<close> of timecourse\_fixedpos.py returns.\<close>

record args =
  lc :: bool
  diffims :: bool
  plots :: bool
  initpos :: bool
  cut :: bool
  quiet :: bool
  dir :: "string option"
  logsdir :: string
  fixthresh :: "rat option"
  usedict :: "string option"
  fmt :: "string list"

record args_fp =
  lc_fp :: bool
  threshplots_fp :: bool
  initpos_fp :: bool
  dir_fp :: "string option"
  logsdir_fp :: string
  fixthresh_fp :: "rat option"
  usedict_fp :: "string option"
  fmt_fp :: "string list"

type_synonym array = "rat list list"
type_synonym bmask = "bool list list"
type_synonym guesses = "rat list \<times> rat list \<times> rat \<times> rat"
type_synonym barcdict = "(string \<times> path list) list"

text \<open>
  \<open>'im\<close> is a PIL image, \<open>'row\<close> a row of a pandas data frame of culture locations (a
  frame is the list of its rows), \<open>'ins\<close> one calibration entry of Colonyzer.txt,
  \<open>'bd\<close> the histogram data returned by the threshold fit. A Python dictionary from
  barcodes to image lists is an association list with distinct keys.
  \<open>estimateLocations\<close> and \<open>locateCultures\<close> are called with different argument
  lists by the two scripts; the fields ending in \<open>_fp\<close> are the calls made by
  timecourse\_fixedpos.py. \<open>pyround x\<close> is \<^verbatim>\<open>int(round(x))\<close>, whose treatment of
  halves depends on the Python version; \<open>np_mean\<close> is \<^verbatim>\<open>numpy.mean\<close> of the
  flattened selection, whose value on an empty selection is not a number.
  \<open>argv\<close> is \<^verbatim>\<open>sys.argv[1:]\<close>, \<open>split\<close> is \<^verbatim>\<open>str.split()\<close>, \<open>parse_args\<close> is
  \<^verbatim>\<open>parse_args\<close> of the parser that lines 30 to 43 of parseAndRun.py build
  (\<open>parse_args_fp\<close>: lines 30 to 40 of timecourse\_fixedpos.py), \<open>python_int\<close> is
  \<^verbatim>\<open>int\<close> on a string, \<open>os_exists\<close> is \<^verbatim>\<open>os.path.exists\<close>.
\<close>

record ('im, 'row, 'ins, 'bd) c2 =
  argv :: "string list"
  split :: "string \<Rightarrow> string list"
  parse_args :: "string list \<Rightarrow> error + args"
  parse_args_fp :: "string list \<Rightarrow> error + args_fp"
  python_int :: "string \<Rightarrow> error + int"
  getcwd :: "error + path"
  realpath :: "path \<Rightarrow> error + path"
  os_exists :: "path \<Rightarrow> error + bool"
  parsePlateFormat :: "string \<Rightarrow> error + (int \<times> int)"
  setupDirectories :: "barcdict \<Rightarrow> error + unit"
  readInstructions :: "path \<Rightarrow> error + (string \<rightharpoonup> 'ins)"
  has_list :: "'ins \<Rightarrow> bool"
  SetUp :: "'ins \<Rightarrow> string option \<Rightarrow> error + guesses"
  openImage :: "path \<Rightarrow> error + ('im \<times> array)"
  estimateLocations ::
    "array \<Rightarrow> int \<Rightarrow> int \<Rightarrow> error + (guesses \<times> (rat \<times> rat) \<times> (rat \<times> rat) \<times> (rat \<times> rat))"
  estimateLocations_fp :: "array \<Rightarrow> int \<Rightarrow> int \<Rightarrow> error + guesses"
  locateCultures ::
    "int list \<Rightarrow> int list \<Rightarrow> rat \<Rightarrow> rat \<Rightarrow> array \<Rightarrow> int \<Rightarrow> int \<Rightarrow> error + 'row list"
  locateCultures_fp :: "int list \<Rightarrow> int list \<Rightarrow> rat \<Rightarrow> rat \<Rightarrow> array \<Rightarrow> error + 'row list"
  makeCorrectionMap :: "array \<Rightarrow> 'row list \<Rightarrow> error + (array \<times> rat)"
  automaticThreshold :: "array \<Rightarrow> error + (rat \<times> 'bd)"
  measureSizeAndColour ::
    "'row list \<Rightarrow> array \<Rightarrow> 'im \<Rightarrow> bmask \<Rightarrow> rat \<Rightarrow> string \<Rightarrow> string \<Rightarrow> error + 'row list"
  threshPreview :: "array \<Rightarrow> rat \<Rightarrow> 'row list \<Rightarrow> error + 'im"
  col_x :: "'row \<Rightarrow> int"
  col_y :: "'row \<Rightarrow> int"
  pyround :: "rat \<Rightarrow> int"
  np_mean :: "rat list \<Rightarrow> rat"

subsection \<open>parseAndRun.py: parseArgs and buildVars\<close>

text \<open>The dictionary \<^verbatim>\<open>res\<close> returned by \<^verbatim>\<open>buildVars\<close>.\<close>

record vars =
  var_lc :: bool
  var_fixedThresh :: rat
  var_plots :: bool
  var_initpos :: bool
  var_fdict :: "path option"
  var_fdir :: path
  var_nrow :: int
  var_ncol :: int
  var_cut :: bool
  var_verbose :: bool
  var_diffims :: bool

definition locateJSON :: "string \<Rightarrow> path \<Rightarrow> path" where
  "locateJSON scrID dirHTS =
     (let exptType = py_drop_suffix 4 scrID
      in join dirHTS [exptType @ ''_EXPERIMENTS'', scrID, ''AUXILIARY'', scrID @ ''_C2.json''])"

definition bind_err :: "error + 'a \<Rightarrow> ('a \<Rightarrow> error + 'b) \<Rightarrow> error + 'b" where
  "bind_err m f = (case m of Inl e \<Rightarrow> Inl e | Inr x \<Rightarrow> f x)"

text \<open>Lines 47 to 51 (the same text in both scripts, each with its own parser).\<close>

definition parseArgs :: "('im, 'row, 'ins, 'bd) c2 \<Rightarrow> string \<Rightarrow> error + args" where
  "parseArgs lib inp =
     (if inp = [] then parse_args lib (argv lib) else parse_args lib (split lib inp))"

text \<open>\<^verbatim>\<open>[int(x) for x in inp.fmt]\<close>: the tokens are converted from left to right and
  the first one that \<^verbatim>\<open>int\<close> refuses raises.\<close>

fun int_all :: "('im, 'row, 'ins, 'bd) c2 \<Rightarrow> string list \<Rightarrow> error + int list" where
  "int_all lib [] = Inr []"
| "int_all lib (x # xs) =
     bind_err (python_int lib x) (\<lambda>n. bind_err (int_all lib xs) (\<lambda>ns. Inr (n # ns)))"

text \<open>Lines 72 to 78: the grid format. Three or more tokens give \<open>(0, 0)\<close>; one token
  goes to the library's preset parser; otherwise every token is converted with
  \<^verbatim>\<open>int\<close> and the list is unpacked into two names.\<close>

definition gridFormat ::
  "('im, 'row, 'ins, 'bd) c2 \<Rightarrow> string list \<Rightarrow> error + (int \<times> int)" where
  "gridFormat lib f =
     (if length f > 2 then Inr (0, 0)
      else if length f = 1 then parsePlateFormat lib (f ! 0)
      else bind_err (int_all lib f)
             (\<lambda>ns. case ns of [r, c] \<Rightarrow> Inr (r, c) | _ \<Rightarrow> Inl ValueError))"

text \<open>Lines 80 to 85.\<close>

definition fdictOf ::
  "('im, 'row, 'ins, 'bd) c2 \<Rightarrow> string option \<Rightarrow> string \<Rightarrow> error + path option" where
  "fdictOf lib u ldir =
     (case u of
        None \<Rightarrow> Inr None
      | Some s \<Rightarrow>
          if py_suffix 5 s \<in> set [''.json'', ''.JSON'']
          then bind_err (realpath lib s) (\<lambda>p. Inr (Some p))
          else bind_err (realpath lib ldir) (\<lambda>d. Inr (Some (locateJSON s d))))"

text \<open>Lines 62 to 86, which both scripts share: the search directory, the grid format,
  the manifest path and the test whether the manifest exists, in this order. The result
  is \<open>(fdir, (nrow, ncol), fdict)\<close>.\<close>

definition buildVars_options ::
  "('im, 'row, 'ins, 'bd) c2 \<Rightarrow> string option \<Rightarrow> string list \<Rightarrow> string option \<Rightarrow> string \<Rightarrow>
     error + (path \<times> (int \<times> int) \<times> path option)" where
  "buildVars_options lib d f u ldir =
     bind_err (case d of None \<Rightarrow> getcwd lib | Some d' \<Rightarrow> realpath lib d') (\<lambda>fdir.
     bind_err (gridFormat lib f) (\<lambda>grid.
     bind_err (fdictOf lib u ldir) (\<lambda>fdict.
     bind_err (case fdict of None \<Rightarrow> Inr False | Some p \<Rightarrow> os_exists lib p) (\<lambda>_.
     Inr (fdir, grid, fdict)))))"

text \<open>
  \<^verbatim>\<open>buildVars\<close>. The locals \<^verbatim>\<open>diffIms\<close> and \<^verbatim>\<open>cut\<close> are assigned only inside
  \<^verbatim>\<open>if verbose:\<close> (lines 93 and 108), so each is an option: None is an unbound
  local. Line 119 tests the manifest once more, inside \<^verbatim>\<open>if verbose:\<close>. The
  dictionary display on line 121 evaluates its values from left to right, reading
  \<^verbatim>\<open>cut\<close> before \<^verbatim>\<open>diffIms\<close>.
\<close>

definition buildVars :: "('im, 'row, 'ins, 'bd) c2 \<Rightarrow> string \<Rightarrow> error + vars" where
  "buildVars lib s =
     bind_err (parseArgs lib s) (\<lambda>inp.
     let verbose = (if quiet inp then False else True);
         fixedThresh = (case fixthresh inp of Some t \<Rightarrow> t | None \<Rightarrow> - 99)
     in
     bind_err (buildVars_options lib (dir inp) (fmt inp) (usedict inp) (logsdir inp))
       (\<lambda>(fdir, (nrow, ncol), fdict).
     bind_err (if verbose \<and> fdict \<noteq> None then os_exists lib (the fdict) else Inr False) (\<lambda>_.
     let diffIms = (if verbose then Some (lc inp \<and> diffims inp) else None);
         cut_local = (if verbose then Some (lc inp \<and> cut inp) else None)
     in (case cut_local of
           None \<Rightarrow> Inl (NameError ''cut'')
         | Some c \<Rightarrow>
             (case diffIms of
                None \<Rightarrow> Inl (NameError ''diffIms'')
              | Some dI \<Rightarrow>
                  Inr \<lparr>var_lc = lc inp, var_fixedThresh = fixedThresh,
                       var_plots = plots inp, var_initpos = initpos inp,
                       var_fdict = fdict, var_fdir = fdir, var_nrow = nrow,
                       var_ncol = ncol, var_cut = c, var_verbose = verbose,
                       var_diffims = dI\<rparr>)))))"

subsection \<open>The file system, the event log and the sequencing of effects\<close>

text \<open>
  A file holds what was last written to it. \<open>ImageData\<close> is an input photograph
  (decoded by the library's \<open>openImage\<close>), \<open>Manifest\<close> a JSON work list as
  \<^verbatim>\<open>json.load\<close> returns it, \<open>Empty\<close> a zero-length file, \<open>Table\<close> what
  \<^verbatim>\<open>DataFrame.to_csv\<close> writes (one line per row of the frame, after a header),
  \<open>Dat\<close> what \<^verbatim>\<open>saveColonyzer\<close> writes, \<open>Png\<close> a saved preview with the
  ellipses drawn on it, \<open>Report\<close> a PDF report. Directories and permissions are
  not modelled one by one: \<open>unwritable w p\<close> is the exception that the operating system
  raises when \<open>p\<close> is opened for writing (a missing directory, a read-only file), if
  any.
\<close>

datatype ('im, 'row) content =
    ImageData
  | Manifest barcdict
  | Empty
  | Table "'row list"
  | Dat "'row list" rat rat rat
  | Png 'im "(rat \<times> rat \<times> rat \<times> rat) list"
  | Report

datatype event =
    OpenImage path
  | AutomaticThreshold array

record ('im, 'row) world =
  files :: "(path \<times> ('im, 'row) content) list"
  unwritable :: "path \<Rightarrow> error option"
  trace :: "event list"

definition ret :: "'a \<Rightarrow> 'w \<Rightarrow> (error + 'a) \<times> 'w" where
  "ret x w = (Inr x, w)"

definition raise :: "error \<Rightarrow> 'w \<Rightarrow> (error + 'a) \<times> 'w" where
  "raise e w = (Inl e, w)"

definition pure_call :: "error + 'a \<Rightarrow> 'w \<Rightarrow> (error + 'a) \<times> 'w" where
  "pure_call r w = (r, w)"

definition then_do ::
  "('w \<Rightarrow> (error + 'a) \<times> 'w) \<Rightarrow> ('a \<Rightarrow> 'w \<Rightarrow> (error + 'b) \<times> 'w) \<Rightarrow> 'w \<Rightarrow> (error + 'b) \<times> 'w" where
  "then_do m f w = (case m w of (Inl e, w') \<Rightarrow> (Inl e, w') | (Inr x, w') \<Rightarrow> f x w')"

definition log_event :: "event \<Rightarrow> ('im, 'row) world \<Rightarrow> (error + unit) \<times> ('im, 'row) world" where
  "log_event ev w = (Inr (), w\<lparr>trace := trace w @ [ev]\<rparr>)"

text \<open>Opening a path for writing (\<^verbatim>\<open>open(p, "w")\<close>, \<^verbatim>\<open>to_csv\<close>, \<^verbatim>\<open>save\<close>) replaces
  whatever the path held, unless the operating system refuses.\<close>

definition write_file ::
  "path \<Rightarrow> ('im, 'row) content \<Rightarrow> ('im, 'row) world \<Rightarrow> (error + unit) \<times> ('im, 'row) world" where
  "write_file p c w =
     (case unwritable w p of
        Some e \<Rightarrow> (Inl e, w)
      | None \<Rightarrow> (Inr (), w\<lparr>files := AList.update p c (files w)\<rparr>))"

definition path_exists :: "('im, 'row) world \<Rightarrow> path \<Rightarrow> bool" where
  "path_exists w p = (map_of (files w) p \<noteq> None)"

definition open_image ::
  "('im, 'row, 'ins, 'bd) c2 \<Rightarrow> path \<Rightarrow> ('im, 'row) world \<Rightarrow> (error + ('im \<times> array)) \<times> ('im, 'row) world" where
  "open_image lib p = then_do (log_event (OpenImage p)) (\<lambda>_. pure_call (openImage lib p))"

definition automatic_threshold ::
  "('im, 'row, 'ins, 'bd) c2 \<Rightarrow> array \<Rightarrow> ('im, 'row) world \<Rightarrow> (error + (rat \<times> 'bd)) \<times> ('im, 'row) world" where
  "automatic_threshold lib a =
     then_do (log_event (AutomaticThreshold a)) (\<lambda>_. pure_call (automaticThreshold lib a))"

subsection \<open>numpy on two-dimensional arrays\<close>

definition nrows :: "'a list list \<Rightarrow> nat" where
  "nrows a = length a"

definition ncols :: "'a list list \<Rightarrow> nat" where
  "ncols a = (case a of [] \<Rightarrow> 0 | r # _ \<Rightarrow> length r)"

definition shape :: "'a list list \<Rightarrow> nat \<times> nat" where
  "shape a = (nrows a, ncols a)"

text \<open>A slice bound: a negative index counts from the end, and both ends are clipped.\<close>

definition slice_index :: "nat \<Rightarrow> int \<Rightarrow> nat" where
  "slice_index n i = (if i < 0 then nat (max 0 (int n + i)) else min n (nat i))"

definition py_slice :: "int \<Rightarrow> int \<Rightarrow> 'a list \<Rightarrow> 'a list" where
  "py_slice i j xs =
     take (slice_index (length xs) j - slice_index (length xs) i)
          (drop (slice_index (length xs) i) xs)"

text \<open>\<^verbatim>\<open>a[r0:r1, c0:c1]\<close>.\<close>

definition slice2 :: "int \<times> int \<times> int \<times> int \<Rightarrow> 'a list list \<Rightarrow> 'a list list" where
  "slice2 win a = (case win of (r0, r1, c0, c1) \<Rightarrow> map (py_slice c0 c1) (py_slice r0 r1 a))"

text \<open>\<^verbatim>\<open>a * b\<close> with numpy's broadcasting of a dimension of length one.\<close>

definition row_mul :: "rat list \<Rightarrow> rat list \<Rightarrow> rat list" where
  "row_mul r s =
     (if length r = length s then map2 (*) r s
      else if length r = 1 then map ((*) (hd r)) s
      else map (\<lambda>x. x * hd s) r)"

definition np_mul :: "array \<Rightarrow> array \<Rightarrow> error + array" where
  "np_mul a b =
     (if (ncols a = ncols b \<or> ncols a = 1 \<or> ncols b = 1) \<and>
         (nrows a = nrows b \<or> nrows a = 1 \<or> nrows b = 1)
      then Inr (if nrows a = nrows b then map2 row_mul a b
                else if nrows a = 1 then map (row_mul (hd a)) b
                else map (\<lambda>r. row_mul r (hd b)) a)
      else Inl ValueError)"

text \<open>\<^verbatim>\<open>a + c\<close> for a scalar \<open>c\<close>.\<close>

definition np_add_scalar :: "array \<Rightarrow> rat \<Rightarrow> array" where
  "np_add_scalar a c = map (map (\<lambda>p. p + c)) a"

text \<open>\<^verbatim>\<open>m = numpy.ones(arr.shape, dtype=bool); m[ref < t] = False\<close>: the boolean index
  must have the shape of the array it indexes.\<close>

definition np_mask_below :: "array \<Rightarrow> array \<Rightarrow> rat \<Rightarrow> error + bmask" where
  "np_mask_below arr ref t =
     (if shape ref = shape arr then Inr (map (map (\<lambda>p. \<not> p < t)) ref) else Inl IndexError)"

text \<open>\<^verbatim>\<open>a[numpy.logical_not(m)]\<close>: the entries of \<open>a\<close> where \<open>m\<close> is False, flattened.\<close>

definition np_select_not :: "array \<Rightarrow> bmask \<Rightarrow> error + rat list" where
  "np_select_not a m =
     (if shape m = shape a
      then Inr (concat (map2 (\<lambda>r mr. map fst (filter (\<lambda>(p, b). \<not> b) (zip r mr))) a m))
      else Inl IndexError)"

definition list_min :: "int list \<Rightarrow> int" where
  "list_min xs = fold min (tl xs) (hd xs)"

definition list_max :: "int list \<Rightarrow> int" where
  "list_max xs = fold max (tl xs) (hd xs)"

subsection \<open>Work index: checkImages (the same text in both scripts)\<close>

text \<open>The path of an output of image \<open>f\<close>:
  \<^verbatim>\<open>os.path.join(os.path.dirname(f), sub, os.path.basename(f).split(".")[0] + ext)\<close>.\<close>

definition outputPath :: "path \<Rightarrow> string \<Rightarrow> string \<Rightarrow> path" where
  "outputPath f sub ext = join (dirname f) [sub, split_dot_0 (basename f) @ ext]"

text \<open>The lock file of a batch is the \<^verbatim>\<open>.out\<close> file of its earliest image (main,
  line 199 of parseAndRun.py and line 175 of timecourse\_fixedpos.py).\<close>

definition lockPath :: "path \<Rightarrow> path" where
  "lockPath f = outputPath f ''Output_Data'' ''.out''"

text \<open>Modelled from the spec: \<^verbatim>\<open>colonyzer2.checkAnalysisStarted\<close> is not among the
  script sources. The spec's LockMarker is a sentinel file tied to an image whose
  existence means claimed or complete, and whose absence alone makes the barcode
  eligible.\<close>

definition checkAnalysisStarted :: "('im, 'row) world \<Rightarrow> path \<Rightarrow> bool" where
  "checkAnalysisStarted w f = path_exists w (lockPath f)"

text \<open>The dictionary comprehension of checkImages (line 19) and of main (line 300):
  \<^verbatim>\<open>{x: barcdict[x] for x in barcdict.keys() if not c2.checkAnalysisStarted(barcdict[x][-1])}\<close>.
  \<^verbatim>\<open>barcdict[x][-1]\<close> raises IndexError on an empty image list.\<close>

fun dropStarted :: "('im, 'row) world \<Rightarrow> barcdict \<Rightarrow> error + barcdict" where
  "dropStarted w [] = Inr []"
| "dropStarted w ((x, ims) # rest) =
     (if ims = [] then Inl IndexError
      else case dropStarted w rest of
             Inl e \<Rightarrow> Inl e
           | Inr rest' \<Rightarrow>
               Inr (if \<not> checkAnalysisStarted w (last ims) then (x, ims) # rest' else rest'))"

text \<open>Modelled from the spec: \<^verbatim>\<open>colonyzer2.getBarcodes\<close> is not among the script
  sources. The spec's Barcode Index scans a directory, groups the image paths by
  barcode (a fixed range of the file name, here \<^verbatim>\<open>name[0:-24]\<close> from the default
  \<^verbatim>\<open>barcRange\<close>), orders each group latest first (file names sort by acquisition
  time) and excludes every barcode whose LockMarker exists.\<close>

definition barcodeOf :: "path \<Rightarrow> string" where
  "barcodeOf p = py_drop_suffix 24 (basename p)"

definition getBarcodes :: "('im, 'row) world \<Rightarrow> path \<Rightarrow> barcdict" where
  "getBarcodes w fdir =
     (let ims = filter (\<lambda>p. map_of (files w) p = Some ImageData \<and> dirname p = fdir)
                       (map fst (files w));
          groups = map (\<lambda>b. (b, rev (sort (filter (\<lambda>p. barcodeOf p = b) ims))))
                       (remdups (map barcodeOf ims))
      in filter (\<lambda>(b, g). \<not> checkAnalysisStarted w (last g)) groups)"

definition checkImages ::
  "path \<Rightarrow> path option \<Rightarrow> ('im, 'row) world \<Rightarrow> (error + barcdict) \<times> ('im, 'row) world" where
  "checkImages fdir fdict w =
     (case fdict of
        Some f \<Rightarrow>
          (case map_of (files w) f of
             None \<Rightarrow> (Inl (IOError f), w)
           | Some (Manifest barcdict) \<Rightarrow> (dropStarted w barcdict, w)
           | Some _ \<Rightarrow> (Inl ValueError, w))
      | None \<Rightarrow> (Inr (getBarcodes w fdir), w))"

subsection \<open>prepareTimecourse, loadLocationGuesses, edgeFill (the same text in both scripts)\<close>

definition prepareTimecourse ::
  "('im, 'row, 'ins, 'bd) c2 \<Rightarrow> barcdict \<Rightarrow>
     error + (string \<times> path \<times> (string \<rightharpoonup> 'ins) \<times> path \<times> path \<times> string)" where
  "prepareTimecourse lib barcdict =
     (case sort (map fst barcdict) of
        [] \<Rightarrow> Inl IndexError
      | BARCODE # _ \<Rightarrow>
          (case map_of barcdict BARCODE of
             None \<Rightarrow> Inl (KeyError BARCODE)
           | Some IMs \<Rightarrow>
               if IMs = [] then Inl IndexError
               else (case readInstructions lib (dirname (hd IMs)) of
                       Inl e \<Rightarrow> Inl e
                     | Inr InsData \<Rightarrow>
                         Inr (BARCODE, dirname (hd IMs), InsData, hd IMs, last IMs,
                              split_dot_0 (last IMs)))))"

definition loadLocationGuesses ::
  "('im, 'row, 'ins, 'bd) c2 \<Rightarrow> path \<Rightarrow> (string \<rightharpoonup> 'ins) \<Rightarrow> error + guesses" where
  "loadLocationGuesses lib IMAGE InsData =
     (case InsData (basename IMAGE) of
        Some entry \<Rightarrow> SetUp lib entry None
      | None \<Rightarrow>
          (case InsData ''default'' of
             None \<Rightarrow> Inl (KeyError ''default'')
           | Some entry \<Rightarrow>
               if has_list lib entry
               then SetUp lib entry (Some (py_slice (- 19) (- 9) (split_dot_0 (basename IMAGE))))
               else SetUp lib entry None))"

text \<open>
  \<^verbatim>\<open>edgeFill\<close> begins with \<^verbatim>\<open>edgeN=getEdges(arr,cutoff=0.8)\<close>. Neither script defines
  or imports a name \<^verbatim>\<open>getEdges\<close> (the imports are \<^verbatim>\<open>colonyzer2 as c2\<close>, json,
  argparse, shutil, string, os, time, numpy, itertools, PdfPages, and in parseAndRun.py
  Image and ImageDraw), so the call raises NameError before anything else happens. The
  same holds for \<^verbatim>\<open>ndimage\<close>, \<^verbatim>\<open>maskAndFill\<close> and \<^verbatim>\<open>maskAndFillCython\<close>.
\<close>

definition edgeFill :: "array \<Rightarrow> 'row list \<Rightarrow> rat \<Rightarrow> error + bmask" where
  "edgeFill a locations cutoff = Inl (NameError ''getEdges'')"

text \<open>The window that trims the plate walls, written out three times in main:
  \<^verbatim>\<open>[max(0,int(round(min(locationsN.y)-dy/2.0))):min(arrN.shape[0],int(round((max(locationsN.y)+dy/2.0)))),
   max(0,int(round(min(locationsN.x)-dx/2.0))):min(arrN.shape[1],int(round((max(locationsN.x)+dx/2.0))))]\<close>.
  \<^verbatim>\<open>min\<close> of an empty column raises ValueError.\<close>

definition trimWindow ::
  "('im, 'row, 'ins, 'bd) c2 \<Rightarrow> 'row list \<Rightarrow> rat \<Rightarrow> rat \<Rightarrow> array \<Rightarrow> error + (int \<times> int \<times> int \<times> int)" where
  "trimWindow lib locs ddx ddy a =
     (if locs = [] then Inl ValueError
      else let ys = map (col_y lib) locs; xs = map (col_x lib) locs
           in Inr (max 0 (pyround lib (of_int (list_min ys) - ddy / 2)),
                   min (int (nrows a)) (pyround lib (of_int (list_max ys) + ddy / 2)),
                   max 0 (pyround lib (of_int (list_min xs) - ddx / 2)),
                   min (int (ncols a)) (pyround lib (of_int (list_max xs) + ddx / 2))))"

text \<open>Modelled from the spec: \<^verbatim>\<open>colonyzer2.saveColonyzer\<close> is not among the script
  sources. The spec's per-image output is a row set next to a structured companion file
  carrying the same data plus threshold and spacing metadata; the companion is written
  at the path the script passes.\<close>

definition saveColonyzer ::
  "path \<Rightarrow> 'row list \<Rightarrow> rat \<Rightarrow> rat \<Rightarrow> rat \<Rightarrow> ('im, 'row) world \<Rightarrow> (error + unit) \<times> ('im, 'row) world" where
  "saveColonyzer p locations t ddx ddy = write_file p (Dat locations t ddx ddy)"

subsection \<open>parseAndRun.py: main\<close>

text \<open>The locals of main that the loop over the images of a batch reads.\<close>

record 'row batch =
  BARCODE :: string
  arrN :: array
  locationsN :: "'row list"
  candx :: "rat list"
  candy :: "rat list"
  dx :: rat
  dy :: rat
  corner :: "rat \<times> rat"
  com :: "rat \<times> rat"
  guess :: "rat \<times> rat"
  correction_map :: "array option"
  average_back :: rat
  corrected_arrN :: array
  thresh :: rat
  maskN :: bmask

text \<open>What one pass of the loop over the images computes for \<^verbatim>\<open>FILENAME\<close>.\<close>

record ('im, 'row) image_result =
  res_FILENAME :: path
  res_im :: 'im
  res_arr :: array
  res_threshadj :: rat
  res_mask :: bmask
  res_locations :: "'row list"

text \<open>What one pass of the loop over the barcodes leaves behind.\<close>

record ('im, 'row) barcode_result =
  res_batch :: "'row batch"
  res_images :: "('im, 'row) image_result list"
  res_barcdict :: barcdict

definition cythonFill :: bool where
  "cythonFill = False"

text \<open>Line 199: \<^verbatim>\<open>tmp=open(os.path.join(...,"Output_Data",...+".out"),"w").close()\<close>.\<close>

definition createLockFile ::
  "path \<Rightarrow> ('im, 'row) world \<Rightarrow> (error + unit) \<times> ('im, 'row) world" where
  "createLockFile EARLIESTIMAGE = write_file (lockPath EARLIESTIMAGE) Empty"

text \<open>Lines 201 to 207: the latest image, then the earliest one unless it is the same
  path.\<close>

definition openLatestEarliest ::
  "('im, 'row, 'ins, 'bd) c2 \<Rightarrow> path \<Rightarrow> path \<Rightarrow> ('im, 'row) world \<Rightarrow>
     (error + (('im \<times> array) \<times> ('im \<times> array))) \<times> ('im, 'row) world" where
  "openLatestEarliest lib LATESTIMAGE EARLIESTIMAGE =
     then_do (open_image lib LATESTIMAGE) (\<lambda>imarrN.
       if LATESTIMAGE = EARLIESTIMAGE then ret (imarrN, imarrN)
       else then_do (open_image lib EARLIESTIMAGE) (\<lambda>imarr0. ret (imarrN, imarr0)))"

text \<open>Lines 209 to 215.\<close>

definition initialGuesses ::
  "('im, 'row, 'ins, 'bd) c2 \<Rightarrow> bool \<Rightarrow> path \<Rightarrow> (string \<rightharpoonup> 'ins) \<Rightarrow> array \<Rightarrow> int \<Rightarrow> int \<Rightarrow>
     error + (guesses \<times> (rat \<times> rat) \<times> (rat \<times> rat) \<times> (rat \<times> rat))" where
  "initialGuesses lib initp LATESTIMAGE InsData a ncol nrow =
     (if initp
      then (case loadLocationGuesses lib LATESTIMAGE InsData of
              Inl e \<Rightarrow> Inl e
            | Inr g \<Rightarrow> Inr (g, (0, 0), (0, 0), (0, 0)))
      else estimateLocations lib a ncol nrow)"

text \<open>Line 218.\<close>

definition locate ::
  "('im, 'row, 'ins, 'bd) c2 \<Rightarrow> guesses \<Rightarrow> array \<Rightarrow> int \<Rightarrow> int \<Rightarrow> error + 'row list" where
  "locate lib g a ncol nrow =
     (case g of (cxs, cys, ddx, ddy) \<Rightarrow>
        locateCultures lib (map (\<lambda>cx. pyround lib (cx - ddx / 2)) cxs)
                           (map (\<lambda>cy. pyround lib (cy - ddy / 2)) cys) ddx ddy a ncol nrow)"

text \<open>
  Lines 220 to 239. With \<^verbatim>\<open>correction\<close> and \<^verbatim>\<open>cut\<close> the branch calls
  \<^verbatim>\<open>edgeFill\<close> and then \<^verbatim>\<open>maskAndFill\<close>; the call of \<^verbatim>\<open>makeCorrectionMap\<close> and the
  assignment of \<^verbatim>\<open>corrected_arrN\<close> (lines 233 and 236) are indented under the
  \<^verbatim>\<open>else\<close> of \<^verbatim>\<open>if cut:\<close>. The result is \<^verbatim>\<open>correction_map\<close> (None when the name is
  not bound), \<^verbatim>\<open>average_back\<close> and \<^verbatim>\<open>corrected_arrN\<close>.
\<close>

definition lightingCorrection ::
  "('im, 'row, 'ins, 'bd) c2 \<Rightarrow> bool \<Rightarrow> bool \<Rightarrow> array \<Rightarrow> array \<Rightarrow> 'row list \<Rightarrow>
     error + (array option \<times> rat \<times> array)" where
  "lightingCorrection lib correction ct a a0 locs =
     (if correction then
        (if ct then
           (case edgeFill a0 locs (4 / 5) of
              Inl e \<Rightarrow> Inl e
            | Inr m \<Rightarrow>
                if cythonFill then Inl (NameError ''maskAndFillCython'')
                else Inl (NameError ''maskAndFill''))
         else
           (case makeCorrectionMap lib a0 locs of
              Inl e \<Rightarrow> Inl e
            | Inr (cmap, avg) \<Rightarrow>
                (case np_mul a cmap of
                   Inl e \<Rightarrow> Inl e
                 | Inr corrected \<Rightarrow> Inr (Some cmap, avg, corrected))))
      else
        (if locs = [] then Inl ValueError
         else Inr (None,
                   np_mean lib (concat (slice2 (list_min (map (col_y lib) locs),
                                                list_max (map (col_y lib) locs),
                                                list_min (map (col_x lib) locs),
                                                list_max (map (col_x lib) locs)) a0)),
                   a)))"

text \<open>Lines 241 to 253: trimming, the threshold, and the mask of the latest image.\<close>

definition segmentation ::
  "('im, 'row, 'ins, 'bd) c2 \<Rightarrow> rat \<Rightarrow> 'row list \<Rightarrow> rat \<Rightarrow> rat \<Rightarrow> array \<Rightarrow> array \<Rightarrow>
     ('im, 'row) world \<Rightarrow> (error + (rat \<times> bmask)) \<times> ('im, 'row) world" where
  "segmentation lib fixedThresh locs ddx ddy a corrected =
     then_do (pure_call (trimWindow lib locs ddx ddy a)) (\<lambda>win.
     then_do (if fixedThresh \<ge> 0 then ret fixedThresh
              else then_do (automatic_threshold lib (slice2 win corrected))
                     (\<lambda>fit. ret (fst fit))) (\<lambda>t.
     then_do (pure_call (np_mask_below a corrected t)) (\<lambda>m.
     ret (t, m))))"

text \<open>Lines 286 to 291: the four red discs, each a bounding box; \<^verbatim>\<open>candx[0]\<close> raises
  IndexError on an empty list.\<close>

definition landmarkBoxes :: "'row batch \<Rightarrow> error + (rat \<times> rat \<times> rat \<times> rat) list" where
  "landmarkBoxes b =
     (let r = 5;
          box = (\<lambda>p. (snd p - r, fst p - r, snd p + r, fst p + r))
      in if candx b = [] \<or> candy b = [] then Inl IndexError
         else Inr [box (com b), box (corner b), box (guess b),
                   (hd (candx b) - r, hd (candy b) - r, hd (candx b) + r, hd (candy b) + r)])"

text \<open>Lines 257 to 295: the body of the loop over the images of the batch.\<close>

definition processImage ::
  "('im, 'row, 'ins, 'bd) c2 \<Rightarrow> bool \<Rightarrow> bool \<Rightarrow> 'row batch \<Rightarrow> path \<Rightarrow> ('im, 'row) world \<Rightarrow>
     (error + ('im, 'row) image_result) \<times> ('im, 'row) world" where
  "processImage lib correction diffIms b FILENAME =
     then_do (open_image lib FILENAME) (\<lambda>imarr.
     then_do (if correction
              then (case correction_map b of
                      None \<Rightarrow> raise (NameError ''correction_map'')
                    | Some cmap \<Rightarrow> pure_call (np_mul (snd imarr) cmap))
              else ret (snd imarr)) (\<lambda>a1.
     then_do (if diffIms
              then then_do (pure_call (trimWindow lib (locationsN b) (dx b) (dy b) (arrN b))) (\<lambda>win.
                   then_do (pure_call (np_select_not (slice2 win a1) (slice2 win (maskN b)))) (\<lambda>sel.
                     ret (np_add_scalar a1 (average_back b - np_mean lib sel),
                          thresh b + (average_back b - np_mean lib sel))))
              else ret (a1, thresh b)) (\<lambda>adj.
     then_do (pure_call (np_mask_below (fst adj) (corrected_arrN b) (snd adj))) (\<lambda>m.
     then_do (pure_call (measureSizeAndColour lib (locationsN b) (fst adj) (fst imarr) m
                           (average_back b) (BARCODE b) (py_drop_suffix 4 FILENAME))) (\<lambda>locations.
     then_do (write_file (outputPath FILENAME ''Output_Data'' ''.out'') (Table locations)) (\<lambda>_.
     then_do (saveColonyzer (outputPath FILENAME ''Output_Data'' ''.dat'') locations (snd adj)
                (dx b) (dy b)) (\<lambda>_.
     then_do (pure_call (threshPreview lib (fst adj) (snd adj) locations)) (\<lambda>imthresh.
     then_do (pure_call (landmarkBoxes b)) (\<lambda>boxes.
     then_do (write_file (outputPath FILENAME ''Output_Images'' ''.png'') (Png imthresh boxes)) (\<lambda>_.
     ret \<lparr>res_FILENAME = FILENAME, res_im = fst imarr, res_arr = fst adj,
          res_threshadj = snd adj, res_mask = m, res_locations = locations\<rparr>))))))))))"

fun processImages ::
  "('im, 'row, 'ins, 'bd) c2 \<Rightarrow> bool \<Rightarrow> bool \<Rightarrow> 'row batch \<Rightarrow> path list \<Rightarrow> ('im, 'row) world \<Rightarrow>
     (error + ('im, 'row) image_result list) \<times> ('im, 'row) world" where
  "processImages lib correction diffIms b [] w = (Inr [], w)"
| "processImages lib correction diffIms b (FILENAME # rest) w =
     (case processImage lib correction diffIms b FILENAME w of
        (Inl e, w') \<Rightarrow> (Inl e, w')
      | (Inr r, w') \<Rightarrow>
          (case processImages lib correction diffIms b rest w' of
             (Inl e, w'') \<Rightarrow> (Inl e, w'')
           | (Inr rs, w'') \<Rightarrow> (Inr (r # rs), w'')))"

text \<open>Lines 209 to 300: the body of the loop over the barcodes, from the location
  guesses on.\<close>

definition analyseBatch ::
  "('im, 'row, 'ins, 'bd) c2 \<Rightarrow> vars \<Rightarrow> barcdict \<Rightarrow> string \<Rightarrow> (string \<rightharpoonup> 'ins) \<Rightarrow> path \<Rightarrow>
     'im \<times> array \<Rightarrow> 'im \<times> array \<Rightarrow> ('im, 'row) world \<Rightarrow>
     (error + ('im, 'row) barcode_result) \<times> ('im, 'row) world" where
  "analyseBatch lib var barcdict BARC InsData LATESTIMAGE imarrN imarr0 =
     then_do (pure_call (initialGuesses lib (var_initpos var) LATESTIMAGE InsData (snd imarrN)
                           (var_ncol var) (var_nrow var))) (\<lambda>(g, crn, cm, gs).
     then_do (pure_call (locate lib g (snd imarrN) (var_ncol var) (var_nrow var))) (\<lambda>locs.
     then_do (pure_call (lightingCorrection lib (var_lc var) (var_cut var) (snd imarrN)
                           (snd imarr0) locs)) (\<lambda>(cmap, avg, corrected).
     then_do (segmentation lib (var_fixedThresh var) locs (fst (snd (snd g))) (snd (snd (snd g)))
                (snd imarrN) corrected) (\<lambda>(t, m).
     let b = \<lparr>BARCODE = BARC, arrN = snd imarrN, locationsN = locs, candx = fst g,
              candy = fst (snd g), dx = fst (snd (snd g)), dy = snd (snd (snd g)),
              corner = crn, com = cm, guess = gs, correction_map = cmap,
              average_back = avg, corrected_arrN = corrected, thresh = t, maskN = m\<rparr>
     in
     then_do (processImages lib (var_lc var) (var_diffims var) b (the (map_of barcdict BARC)))
       (\<lambda>rs.
     then_do (\<lambda>w. (dropStarted w barcdict, w)) (\<lambda>remaining.
     ret \<lparr>res_batch = b, res_images = rs, res_barcdict = remaining\<rparr>))))))"

text \<open>Lines 191 to 302: the body of the loop over the barcodes.\<close>

definition processBarcode ::
  "('im, 'row, 'ins, 'bd) c2 \<Rightarrow> vars \<Rightarrow> barcdict \<Rightarrow> ('im, 'row) world \<Rightarrow>
     (error + ('im, 'row) barcode_result) \<times> ('im, 'row) world" where
  "processBarcode lib var barcdict =
     then_do (pure_call (prepareTimecourse lib barcdict))
       (\<lambda>(BARC, imdir, InsData, LATESTIMAGE, EARLIESTIMAGE, imRoot).
     then_do (if var_plots var
              then write_file (outputPath EARLIESTIMAGE ''Output_Reports'' ''.pdf'') Report
              else ret ()) (\<lambda>_.
     then_do (createLockFile EARLIESTIMAGE) (\<lambda>_.
     then_do (openLatestEarliest lib LATESTIMAGE EARLIESTIMAGE) (\<lambda>(imarrN, imarr0).
     analyseBatch lib var barcdict BARC InsData LATESTIMAGE imarrN imarr0))))"

text \<open>
  Lines 189 to 304: \<^verbatim>\<open>while len(barcdict)>0\<close>. Nothing in the script bounds the
  number of passes, so the loop takes fuel and None is a run that has not finished
  within it. main returns nothing; the model returns the results of the images it
  processed, in order.
\<close>

fun main_loop ::
  "nat \<Rightarrow> ('im, 'row, 'ins, 'bd) c2 \<Rightarrow> vars \<Rightarrow> barcdict \<Rightarrow> ('im, 'row) image_result list \<Rightarrow>
     ('im, 'row) world \<Rightarrow> ((error + ('im, 'row) image_result list) \<times> ('im, 'row) world) option" where
  "main_loop n lib var barcdict processed w =
     (if \<not> length barcdict > 0 then Some (Inr processed, w)
      else (case n of
              0 \<Rightarrow> None
            | Suc k \<Rightarrow>
                (case processBarcode lib var barcdict w of
                   (Inl e, w') \<Rightarrow> Some (Inl e, w')
                 | (Inr res, w') \<Rightarrow>
                     main_loop k lib var (res_barcdict res) (processed @ res_images res) w')))"

text \<open>Lines 177 to 187, then the loop.\<close>

definition main ::
  "nat \<Rightarrow> ('im, 'row, 'ins, 'bd) c2 \<Rightarrow> string \<Rightarrow> ('im, 'row) world \<Rightarrow>
     ((error + ('im, 'row) image_result list) \<times> ('im, 'row) world) option" where
  "main fuel lib inp w =
     (case buildVars lib inp of
        Inl e \<Rightarrow> Some (Inl e, w)
      | Inr var \<Rightarrow>
          (case checkImages (var_fdir var) (var_fdict var) w of
             (Inl e, w') \<Rightarrow> Some (Inl e, w')
           | (Inr barcdict, w') \<Rightarrow>
               (case setupDirectories lib barcdict of
                  Inl e \<Rightarrow> Some (Inl e, w')
                | Inr _ \<Rightarrow> main_loop fuel lib var barcdict [] w')))"

subsection \<open>timecourse\_fixedpos.py: buildVars and main\<close>

record vars_fp =
  var_lc_fp :: bool
  var_fixedThresh_fp :: rat
  var_threshplots_fp :: bool
  var_initpos_fp :: bool
  var_fdict_fp :: "path option"
  var_fdir_fp :: path
  var_nrow_fp :: int
  var_ncol_fp :: int

definition parseArgs_fp :: "('im, 'row, 'ins, 'bd) c2 \<Rightarrow> string \<Rightarrow> error + args_fp" where
  "parseArgs_fp lib inp =
     (if inp = [] then parse_args_fp lib (argv lib) else parse_args_fp lib (split lib inp))"

text \<open>\<^verbatim>\<open>buildVars\<close> of timecourse\_fixedpos.py: the result has no \<^verbatim>\<open>cut\<close> and no
  \<^verbatim>\<open>diffims\<close>. The parameter \<^verbatim>\<open>verbose\<close> decides line 95, the second test of the
  manifest.\<close>

definition buildVars_fp ::
  "('im, 'row, 'ins, 'bd) c2 \<Rightarrow> string \<Rightarrow> bool \<Rightarrow> error + vars_fp" where
  "buildVars_fp lib s verbose =
     bind_err (parseArgs_fp lib s) (\<lambda>inp.
     let fixedThresh = (case fixthresh_fp inp of Some t \<Rightarrow> t | None \<Rightarrow> - 99)
     in
     bind_err (buildVars_options lib (dir_fp inp) (fmt_fp inp) (usedict_fp inp) (logsdir_fp inp))
       (\<lambda>(fdir, (nrow, ncol), fdict).
     bind_err (if verbose \<and> fdict \<noteq> None then os_exists lib (the fdict) else Inr False) (\<lambda>_.
     Inr \<lparr>var_lc_fp = lc_fp inp, var_fixedThresh_fp = fixedThresh,
          var_threshplots_fp = threshplots_fp inp, var_initpos_fp = initpos_fp inp,
          var_fdict_fp = fdict, var_fdir_fp = fdir, var_nrow_fp = nrow,
          var_ncol_fp = ncol\<rparr>)))"

definition cutFromFirst :: bool where
  "cutFromFirst = False"

text \<open>Lines 182 to 190. The script has no landmark points.\<close>

definition initialGuesses_fp ::
  "('im, 'row, 'ins, 'bd) c2 \<Rightarrow> bool \<Rightarrow> path \<Rightarrow> (string \<rightharpoonup> 'ins) \<Rightarrow> array \<Rightarrow> int \<Rightarrow> int \<Rightarrow>
     error + guesses" where
  "initialGuesses_fp lib initp LATESTIMAGE InsData a ncol nrow =
     (if initp then loadLocationGuesses lib LATESTIMAGE InsData
      else estimateLocations_fp lib a ncol nrow)"

definition locate_fp ::
  "('im, 'row, 'ins, 'bd) c2 \<Rightarrow> guesses \<Rightarrow> array \<Rightarrow> error + 'row list" where
  "locate_fp lib g a =
     (case g of (cxs, cys, ddx, ddy) \<Rightarrow>
        locateCultures_fp lib (map (\<lambda>cx. pyround lib (cx - ddx / 2)) cxs)
                              (map (\<lambda>cy. pyround lib (cy - ddy / 2)) cys) ddx ddy a)"

text \<open>Lines 192 to 208: the correction map is made from the earliest image whether or not
  lighting correction is on, and \<^verbatim>\<open>corrected_arrN\<close> is computed and not read again.\<close>

definition lightingCorrection_fp ::
  "('im, 'row, 'ins, 'bd) c2 \<Rightarrow> array \<Rightarrow> array \<Rightarrow> 'row list \<Rightarrow> error + (array \<times> rat \<times> array)" where
  "lightingCorrection_fp lib a a0 locs =
     (case (if cutFromFirst
            then (case edgeFill a0 locs (4 / 5) of
                    Inl e \<Rightarrow> Inl e
                  | Inr m \<Rightarrow>
                      if cythonFill then Inl (NameError ''maskAndFillCython'')
                      else Inl (NameError ''maskAndFill''))
            else Inr a0) of
        Inl e \<Rightarrow> Inl e
      | Inr pseudoempty \<Rightarrow>
          (case makeCorrectionMap lib pseudoempty locs of
             Inl e \<Rightarrow> Inl e
           | Inr (cmap, avg) \<Rightarrow>
               (case np_mul a cmap of
                  Inl e \<Rightarrow> Inl e
                | Inr corrected \<Rightarrow> Inr (cmap, avg, corrected))))"

text \<open>Lines 210 to 226: the window is cut from the raw latest image, and the mask of the
  latest image compares the raw latest image.\<close>

definition segmentation_fp ::
  "('im, 'row, 'ins, 'bd) c2 \<Rightarrow> rat \<Rightarrow> bool \<Rightarrow> string \<Rightarrow> 'row list \<Rightarrow> rat \<Rightarrow> rat \<Rightarrow> array \<Rightarrow>
     ('im, 'row) world \<Rightarrow> (error + (rat \<times> bmask)) \<times> ('im, 'row) world" where
  "segmentation_fp lib fixedThresh threshplots BARC locs ddx ddy a =
     then_do (pure_call (trimWindow lib locs ddx ddy a)) (\<lambda>win.
     then_do (if fixedThresh \<ge> 0 then ret fixedThresh
              else then_do (if threshplots
                            then write_file (BARC @ ''_HistogramReport.pdf'') Report
                            else ret ()) (\<lambda>_.
                   then_do (automatic_threshold lib (slice2 win a)) (\<lambda>fit. ret (fst fit)))) (\<lambda>t.
     then_do (pure_call (np_mask_below a a t)) (\<lambda>m.
     ret (t, m))))"

text \<open>Lines 229 to 254: the body of the loop over the images. \<^verbatim>\<open>meanPx\<close> is computed
  and not used (lines 238 and 239 are commented out), but computing it can raise.\<close>

definition processImage_fp ::
  "('im, 'row, 'ins, 'bd) c2 \<Rightarrow> bool \<Rightarrow> 'row batch \<Rightarrow> path \<Rightarrow> ('im, 'row) world \<Rightarrow>
     (error + ('im, 'row) image_result) \<times> ('im, 'row) world" where
  "processImage_fp lib correction b FILENAME =
     then_do (open_image lib FILENAME) (\<lambda>imarr.
     then_do (if correction
              then (case correction_map b of
                      None \<Rightarrow> raise (NameError ''correction_map'')
                    | Some cmap \<Rightarrow> pure_call (np_mul (snd imarr) cmap))
              else ret (snd imarr)) (\<lambda>a1.
     then_do (pure_call (trimWindow lib (locationsN b) (dx b) (dy b) (arrN b))) (\<lambda>win.
     then_do (pure_call (np_select_not (slice2 win a1) (slice2 win (maskN b)))) (\<lambda>sel.
     then_do (pure_call (np_mask_below a1 (arrN b) (thresh b))) (\<lambda>m.
     then_do (pure_call (measureSizeAndColour lib (locationsN b) a1 (fst imarr) m
                           (average_back b) (BARCODE b) (py_drop_suffix 4 FILENAME))) (\<lambda>locations.
     then_do (write_file (outputPath FILENAME ''Output_Data'' ''.out'') (Table locations)) (\<lambda>_.
     then_do (saveColonyzer (outputPath FILENAME ''Output_Data'' ''.dat'') locations (thresh b)
                (dx b) (dy b)) (\<lambda>_.
     then_do (pure_call (threshPreview lib a1 (thresh b) locations)) (\<lambda>imthresh.
     then_do (write_file (outputPath FILENAME ''Output_Images'' ''.png'') (Png imthresh [])) (\<lambda>_.
     ret \<lparr>res_FILENAME = FILENAME, res_im = fst imarr, res_arr = a1,
          res_threshadj = thresh b, res_mask = m, res_locations = locations\<rparr>))))))))))"

fun processImages_fp ::
  "('im, 'row, 'ins, 'bd) c2 \<Rightarrow> bool \<Rightarrow> 'row batch \<Rightarrow> path list \<Rightarrow> ('im, 'row) world \<Rightarrow>
     (error + ('im, 'row) image_result list) \<times> ('im, 'row) world" where
  "processImages_fp lib correction b [] w = (Inr [], w)"
| "processImages_fp lib correction b (FILENAME # rest) w =
     (case processImage_fp lib correction b FILENAME w of
        (Inl e, w') \<Rightarrow> (Inl e, w')
      | (Inr r, w') \<Rightarrow>
          (case processImages_fp lib correction b rest w' of
             (Inl e, w'') \<Rightarrow> (Inl e, w'')
           | (Inr rs, w'') \<Rightarrow> (Inr (r # rs), w'')))"

text \<open>Lines 182 to 259: the body of the loop over the barcodes, from the location
  guesses on. The fields \<open>corner\<close>, \<open>com\<close> and \<open>guess\<close> of the batch stand for
  locals that this script does not have; they are zero and never read.\<close>

definition analyseBatch_fp ::
  "('im, 'row, 'ins, 'bd) c2 \<Rightarrow> vars_fp \<Rightarrow> barcdict \<Rightarrow> string \<Rightarrow> (string \<rightharpoonup> 'ins) \<Rightarrow> path \<Rightarrow>
     'im \<times> array \<Rightarrow> 'im \<times> array \<Rightarrow> ('im, 'row) world \<Rightarrow>
     (error + ('im, 'row) barcode_result) \<times> ('im, 'row) world" where
  "analyseBatch_fp lib var barcdict BARC InsData LATESTIMAGE imarrN imarr0 =
     then_do (pure_call (initialGuesses_fp lib (var_initpos_fp var) LATESTIMAGE InsData
                           (snd imarrN) (var_ncol_fp var) (var_nrow_fp var))) (\<lambda>g.
     then_do (pure_call (locate_fp lib g (snd imarrN))) (\<lambda>locs.
     then_do (pure_call (lightingCorrection_fp lib (snd imarrN) (snd imarr0) locs))
       (\<lambda>(cmap, avg, corrected).
     then_do (segmentation_fp lib (var_fixedThresh_fp var) (var_threshplots_fp var) BARC locs
                (fst (snd (snd g))) (snd (snd (snd g))) (snd imarrN)) (\<lambda>(t, m).
     let b = \<lparr>BARCODE = BARC, arrN = snd imarrN, locationsN = locs, candx = fst g,
              candy = fst (snd g), dx = fst (snd (snd g)), dy = snd (snd (snd g)),
              corner = (0, 0), com = (0, 0), guess = (0, 0), correction_map = Some cmap,
              average_back = avg, corrected_arrN = corrected, thresh = t, maskN = m\<rparr>
     in
     then_do (processImages_fp lib (var_lc_fp var) b (the (map_of barcdict BARC))) (\<lambda>rs.
     then_do (\<lambda>w. (dropStarted w barcdict, w)) (\<lambda>remaining.
     ret \<lparr>res_batch = b, res_images = rs, res_barcdict = remaining\<rparr>))))))"

text \<open>Lines 172 to 259: the body of the loop over the barcodes. Both images are opened
  whether or not they are the same path.\<close>

definition processBarcode_fp ::
  "('im, 'row, 'ins, 'bd) c2 \<Rightarrow> vars_fp \<Rightarrow> barcdict \<Rightarrow> ('im, 'row) world \<Rightarrow>
     (error + ('im, 'row) barcode_result) \<times> ('im, 'row) world" where
  "processBarcode_fp lib var barcdict =
     then_do (pure_call (prepareTimecourse lib barcdict))
       (\<lambda>(BARC, imdir, InsData, LATESTIMAGE, EARLIESTIMAGE, imRoot).
     then_do (createLockFile EARLIESTIMAGE) (\<lambda>_.
     then_do (open_image lib LATESTIMAGE) (\<lambda>imarrN.
     then_do (open_image lib EARLIESTIMAGE) (\<lambda>imarr0.
     analyseBatch_fp lib var barcdict BARC InsData LATESTIMAGE imarrN imarr0))))"

fun main_loop_fp ::
  "nat \<Rightarrow> ('im, 'row, 'ins, 'bd) c2 \<Rightarrow> vars_fp \<Rightarrow> barcdict \<Rightarrow> ('im, 'row) image_result list \<Rightarrow>
     ('im, 'row) world \<Rightarrow> ((error + ('im, 'row) image_result list) \<times> ('im, 'row) world) option" where
  "main_loop_fp n lib var barcdict processed w =
     (if \<not> length barcdict > 0 then Some (Inr processed, w)
      else (case n of
              0 \<Rightarrow> None
            | Suc k \<Rightarrow>
                (case processBarcode_fp lib var barcdict w of
                   (Inl e, w') \<Rightarrow> Some (Inl e, w')
                 | (Inr res, w') \<Rightarrow>
                     main_loop_fp k lib var (res_barcdict res) (processed @ res_images res) w')))"

definition main_fp ::
  "nat \<Rightarrow> ('im, 'row, 'ins, 'bd) c2 \<Rightarrow> string \<Rightarrow> bool \<Rightarrow> ('im, 'row) world \<Rightarrow>
     ((error + ('im, 'row) image_result list) \<times> ('im, 'row) world) option" where
  "main_fp fuel lib inp verbose w =
     (case buildVars_fp lib inp verbose of
        Inl e \<Rightarrow> Some (Inl e, w)
      | Inr var \<Rightarrow>
          (case checkImages (var_fdir_fp var) (var_fdict_fp var) w of
             (Inl e, w') \<Rightarrow> Some (Inl e, w')
           | (Inr barcdict, w') \<Rightarrow>
               (case setupDirectories lib barcdict of
                  Inl e \<Rightarrow> Some (Inl e, w')
                | Inr _ \<Rightarrow> main_loop_fp fuel lib var barcdict [] w')))"

subsection \<open>Observations on the event log\<close>

fun fit_calls :: "event list \<Rightarrow> array list" where
  "fit_calls [] = []"
| "fit_calls (AutomaticThreshold a # es) = a # fit_calls es"
| "fit_calls (OpenImage p # es) = fit_calls es"


text \<open>A computation that adds nothing but image opens to the event log, whatever its
  outcome.\<close>

definition opens_only ::
  "(('im, 'row) world \<Rightarrow> (error + 'a) \<times> ('im, 'row) world) \<Rightarrow> bool" where
  "opens_only m = (\<forall>w r w'. m w = (r, w') \<longrightarrow> (\<exists>ps. trace w' = trace w @ map OpenImage ps))"

text \<open>A computation that, whatever its outcome, only appends to the event log and
  removes no file.\<close>

definition grows ::
  "(('im, 'row) world \<Rightarrow> (error + 'a) \<times> ('im, 'row) world) \<Rightarrow> bool" where
  "grows m =
     (\<forall>w r w'. m w = (r, w') \<longrightarrow>
        (\<exists>es. trace w' = trace w @ es) \<and> (\<forall>p. path_exists w p \<longrightarrow> path_exists w' p))"

text \<open>The number of data rows a file holds.\<close>

fun rows_of :: "('im, 'row) content \<Rightarrow> nat" where
  "rows_of (Table rs) = length rs"
| "rows_of (Dat rs t ddx ddy) = length rs"
| "rows_of _ = 0"

subsection \<open>A small library instance and a plate with two photographs\<close>

text \<open>
  An instance of the interface on which the scripts can be run: a PIL image is the path
  it was read from, a row of a frame is \<open>(x, y, measurement)\<close>, a calibration entry is
  the guesses it stands for. Barcode \<^verbatim>\<open>K01\<close> has a later photograph \<open>img2\<close> and an
  earlier one \<open>img1\<close> of two by two pixels. The runtime functions are tables over the
  command lines and tokens used below, with the values Python gives there.
\<close>

definition img1 :: path where
  "img1 = ''/d/K01_2014-01-01_10-00-00.jpg''"

definition img2 :: path where
  "img2 = ''/d/K01_2014-01-02_10-00-00.jpg''"

text \<open>What argparse returns when no option is given.\<close>

definition default_args :: args where
  "default_args =
     \<lparr>lc = False, diffims = False, plots = False, initpos = False, cut = False,
      quiet = False, dir = Some ''.'', logsdir = ''.'', fixthresh = None, usedict = None,
      fmt = [''384'']\<rparr>"

definition default_args_fp :: args_fp where
  "default_args_fp =
     \<lparr>lc_fp = False, threshplots_fp = False, initpos_fp = False, dir_fp = Some ''.'',
      logsdir_fp = ''.'', fixthresh_fp = None, usedict_fp = None, fmt_fp = [''384'']\<rparr>"

definition example_split :: "string \<Rightarrow> string list" where
  "example_split s =
     (if s = ''-f 5'' then [''-f'', ''5'']
      else if s = ''-o 384'' then [''-o'', ''384'']
      else if s = ''-q -f 5'' then [''-q'', ''-f'', ''5'']
      else if s = ''-q -o a b'' then [''-q'', ''-o'', ''a'', ''b'']
      else if s = ''-f 5 -o 8 12 1'' then [''-f'', ''5'', ''-o'', ''8'', ''12'', ''1'']
      else if s = ''-i -f 5 -o 8 12 1'' then [''-i'', ''-f'', ''5'', ''-o'', ''8'', ''12'', ''1'']
      else if s = ''-c -x -f 5'' then [''-c'', ''-x'', ''-f'', ''5'']
      else [s])"

definition example_parse :: "string list \<Rightarrow> error + args" where
  "example_parse ts =
     (if ts = [''-f'', ''5''] then Inr (default_args\<lparr>fixthresh := Some 5\<rparr>)
      else if ts = [''-o'', ''384''] then Inr default_args
      else if ts = [''-q'', ''-f'', ''5'']
        then Inr (default_args\<lparr>quiet := True, fixthresh := Some 5\<rparr>)
      else if ts = [''-q'', ''-o'', ''a'', ''b'']
        then Inr (default_args\<lparr>quiet := True, fmt := [''a'', ''b'']\<rparr>)
      else if ts = [''-f'', ''5'', ''-o'', ''8'', ''12'', ''1'']
        then Inr (default_args\<lparr>fixthresh := Some 5, fmt := [''8'', ''12'', ''1'']\<rparr>)
      else if ts = [''-c'', ''-x'', ''-f'', ''5'']
        then Inr (default_args\<lparr>lc := True, cut := True, fixthresh := Some 5\<rparr>)
      else Inl SystemExit)"

definition example_parse_fp :: "string list \<Rightarrow> error + args_fp" where
  "example_parse_fp ts =
     (if ts = [''-f'', ''5''] then Inr (default_args_fp\<lparr>fixthresh_fp := Some 5\<rparr>)
      else if ts = [''-o'', ''384''] then Inr default_args_fp
      else if ts = [''-i'', ''-f'', ''5'', ''-o'', ''8'', ''12'', ''1'']
        then Inr (default_args_fp\<lparr>initpos_fp := True, fixthresh_fp := Some 5,
                                   fmt_fp := [''8'', ''12'', ''1'']\<rparr>)
      else Inl SystemExit)"

definition example_lib :: "(string, int \<times> int \<times> rat, guesses, unit) c2" where
  "example_lib =
     \<lparr>argv = [],
      split = example_split,
      parse_args = example_parse,
      parse_args_fp = example_parse_fp,
      python_int =
        (\<lambda>x. if x = ''24'' then Inr 24 else if x = ''16'' then Inr 16 else Inl ValueError),
      getcwd = Inr ''/d'',
      realpath = (\<lambda>p. Inr (if p = ''.'' then ''/d'' else p)),
      os_exists = (\<lambda>p. Inr False),
      parsePlateFormat =
        (\<lambda>s. if s = ''384'' then Inr (16, 24) else Inl (LibraryError ''parsePlateFormat'')),
      setupDirectories = (\<lambda>_. Inr ()),
      readInstructions = (\<lambda>_. Inr [''default'' \<mapsto> ([1], [1], 2, 2)]),
      has_list = (\<lambda>_. False),
      SetUp = (\<lambda>entry _. Inr entry),
      openImage =
        (\<lambda>p. if p = img2 then Inr (p, [[1, 9], [9, 1]])
             else if p = img1 then Inr (p, [[1, 1], [1, 9]])
             else Inl (IOError p)),
      estimateLocations = (\<lambda>a ncol nrow. Inr (([1], [1], 2, 2), (0, 0), (0, 0), (0, 0))),
      estimateLocations_fp = (\<lambda>a ncol nrow. Inr ([1], [1], 2, 2)),
      locateCultures = (\<lambda>xs ys ddx ddy a ncol nrow. Inr (map2 (\<lambda>x y. (x, y, 0)) xs ys)),
      locateCultures_fp = (\<lambda>xs ys ddx ddy a. Inr (map2 (\<lambda>x y. (x, y, 0)) xs ys)),
      makeCorrectionMap = (\<lambda>a locs. Inr (map (map (\<lambda>_. 2)) a, 1)),
      automaticThreshold = (\<lambda>a. Inr (5, ())),
      measureSizeAndColour =
        (\<lambda>locs a im m avg barc name.
           Inr (map (\<lambda>(x, y, _).
                  (x, y, sum_list (map fst (filter snd (zip (concat a) (concat m)))))) locs)),
      threshPreview = (\<lambda>a t locs. Inr ''preview''),
      col_x = fst,
      col_y = (\<lambda>r. fst (snd r)),
      pyround = (\<lambda>q. \<lfloor>q + 1 / 2\<rfloor>),
      np_mean = (\<lambda>xs. if xs = [] then 0 else sum_list xs / of_nat (length xs))\<rparr>"

definition example_world :: "(string, int \<times> int \<times> rat) world" where
  "example_world =
     \<lparr>files = [(img2, ImageData), (img1, ImageData)], unwritable = (\<lambda>_. None), trace = []\<rparr>"

text \<open>The same directory after an earlier run has written the results of \<open>img1\<close>.\<close>

definition claimed_world :: "(string, int \<times> int \<times> rat) world" where
  "claimed_world =
     \<lparr>files = [(img2, ImageData), (img1, ImageData), (lockPath img1, Table [(0, 0, 2)])],
      unwritable = (\<lambda>_. None), trace = []\<rparr>"

definition example_barcdict :: barcdict where
  "example_barcdict = [(''K01'', [img2, img1])]"


text \<open>What \<^verbatim>\<open>buildVars\<close> returns for \<^verbatim>\<open>-f 5\<close>.\<close>

definition example_vars :: vars where
  "example_vars =
     \<lparr>var_lc = False, var_fixedThresh = 5, var_plots = False, var_initpos = False,
      var_fdict = None, var_fdir = ''/d'', var_nrow = 16, var_ncol = 24, var_cut = False,
      var_verbose = True, var_diffims = False\<rparr>"

definition example_vars_fp :: vars_fp where
  "example_vars_fp =
     \<lparr>var_lc_fp = False, var_fixedThresh_fp = 5, var_threshplots_fp = False,
      var_initpos_fp = False, var_fdict_fp = None, var_fdir_fp = ''/d'', var_nrow_fp = 16,
      var_ncol_fp = 24\<rparr>"

section \<open>Properties\<close>

subsection \<open>Sequencing of effects\<close>

lemma bind_err_Inr: "bind_err m f = Inr y \<longleftrightarrow> (\<exists>x. m = Inr x \<and> f x = Inr y)"
  by (cases m) (simp_all add: bind_err_def)

lemma bind_err_simps:
  "bind_err (Inl e) f = Inl e" "bind_err (Inr x) f = f x"
  by (simp_all add: bind_err_def)

lemma then_do_Inr:
  "then_do m f w = (Inr y, w2) \<longleftrightarrow> (\<exists>x w1. m w = (Inr x, w1) \<and> f x w1 = (Inr y, w2))"
  by (auto simp: then_do_def split: prod.splits sum.splits)

lemma then_do_step: "m w = (Inr x, w1) \<Longrightarrow> then_do m f w = f x w1"
  by (simp add: then_do_def)

lemma then_do_fail: "m w = (Inl e, w1) \<Longrightarrow> then_do m f w = (Inl e, w1)"
  by (simp add: then_do_def)

lemma ret_eq: "ret x w = (r, w') \<longleftrightarrow> r = Inr x \<and> w' = w"
  by (auto simp: ret_def)

lemma raise_eq: "raise e w = (r, w') \<longleftrightarrow> r = Inl e \<and> w' = w"
  by (auto simp: raise_def)

lemma pure_call_eq: "pure_call c w = (r, w') \<longleftrightarrow> c = r \<and> w' = w"
  by (auto simp: pure_call_def)

lemma write_file_Inr:
  "write_file p c w = (Inr u, w') \<longleftrightarrow>
     unwritable w p = None \<and> w' = w\<lparr>files := AList.update p c (files w)\<rparr>"
  by (auto simp: write_file_def split: option.splits)

lemma write_file_ok:
  "unwritable w p = None \<Longrightarrow>
     write_file p c w = (Inr (), w\<lparr>files := AList.update p c (files w)\<rparr>)"
  by (simp add: write_file_def)

lemma open_image_eq:
  "open_image lib p w = (r, w') \<longleftrightarrow>
     openImage lib p = r \<and> w' = w\<lparr>trace := trace w @ [OpenImage p]\<rparr>"
  by (auto simp: open_image_def then_do_def log_event_def pure_call_def)

lemma automatic_threshold_eq:
  "automatic_threshold lib a w = (r, w') \<longleftrightarrow>
     automaticThreshold lib a = r \<and> w' = w\<lparr>trace := trace w @ [AutomaticThreshold a]\<rparr>"
  by (auto simp: automatic_threshold_def then_do_def log_event_def pure_call_def)

lemma np_mask_below_Inr:
  "np_mask_below a ref t = Inr m \<longleftrightarrow>
     shape ref = shape a \<and> m = map (map (\<lambda>p. \<not> p < t)) ref"
  by (auto simp: np_mask_below_def)

lemmas effect_eqs = then_do_Inr ret_eq raise_eq pure_call_eq write_file_Inr open_image_eq
  automatic_threshold_eq

lemma prepareTimecourse_Inr:
  assumes "prepareTimecourse lib d = Inr (B, imdir, InsData, L, E, imRoot)"
  shows "\<exists>IMs. map_of d B = Some IMs \<and> IMs \<noteq> [] \<and> L = hd IMs \<and> E = last IMs"
  using assms
  by (auto simp: prepareTimecourse_def split: list.splits option.splits if_splits sum.splits)

subsection \<open>The loop over the images\<close>

lemma processImage_Inr:
  assumes "processImage lib c d b f w = (Inr r, w')"
  shows "\<exists>im a0 a1 locs pv.
           openImage lib f = Inr (im, a0) \<and>
           (if c then \<exists>cmap. correction_map b = Some cmap \<and> np_mul a0 cmap = Inr a1 else a1 = a0) \<and>
           (if d
            then \<exists>win sel. trimWindow lib (locationsN b) (dx b) (dy b) (arrN b) = Inr win \<and>
                   np_select_not (slice2 win a1) (slice2 win (maskN b)) = Inr sel \<and>
                   res_arr r = np_add_scalar a1 (average_back b - np_mean lib sel) \<and>
                   res_threshadj r = thresh b + (average_back b - np_mean lib sel)
            else res_arr r = a1 \<and> res_threshadj r = thresh b) \<and>
           shape (corrected_arrN b) = shape (res_arr r) \<and>
           res_mask r = map (map (\<lambda>p. \<not> p < res_threshadj r)) (corrected_arrN b) \<and>
           measureSizeAndColour lib (locationsN b) (res_arr r) im (res_mask r)
             (average_back b) (BARCODE b) (py_drop_suffix 4 f) = Inr locs \<and>
           r = \<lparr>res_FILENAME = f, res_im = im, res_arr = res_arr r,
                res_threshadj = res_threshadj r, res_mask = res_mask r, res_locations = locs\<rparr> \<and>
           trace w' = trace w @ [OpenImage f] \<and>
           unwritable w' = unwritable w \<and>
           files w' =
             AList.update (outputPath f ''Output_Images'' ''.png'') pv
               (AList.update (outputPath f ''Output_Data'' ''.dat'')
                  (Dat locs (res_threshadj r) (dx b) (dy b))
                  (AList.update (outputPath f ''Output_Data'' ''.out'') (Table locs) (files w)))"
proof (cases c; cases d; cases "correction_map b")
qed (use assms in \<open>auto simp: processImage_def saveColonyzer_def then_do_Inr ret_eq raise_eq
      pure_call_eq write_file_Inr open_image_eq np_mask_below_Inr\<close>)

lemma processImage_basic:
  assumes "processImage lib c d b f w = (Inr r, w')"
  shows "res_FILENAME r = f"
    and "trace w' = trace w @ [OpenImage f]"
    and "unwritable w' = unwritable w"
proof -
  from processImage_Inr [OF assms] obtain im locs where
    r: "r = \<lparr>res_FILENAME = f, res_im = im, res_arr = res_arr r,
              res_threshadj = res_threshadj r, res_mask = res_mask r, res_locations = locs\<rparr>"
    and t: "trace w' = trace w @ [OpenImage f]"
    and u: "unwritable w' = unwritable w"
    by (elim exE conjE) (rule that)
  from r have "res_FILENAME r = res_FILENAME \<lparr>res_FILENAME = f, res_im = im, res_arr = res_arr r,
              res_threshadj = res_threshadj r, res_mask = res_mask r, res_locations = locs\<rparr>"
    by (rule arg_cong)
  then show "res_FILENAME r = f" by simp
  from t show "trace w' = trace w @ [OpenImage f]" .
  from u show "unwritable w' = unwritable w" .
qed

lemma processImages_Inr:
  assumes "processImages lib c d b fs w = (Inr rs, w')"
  shows "map res_FILENAME rs = fs \<and> trace w' = trace w @ map OpenImage fs \<and>
         unwritable w' = unwritable w \<and>
         (\<forall>r \<in> set rs. \<exists>w0 w1. processImage lib c d b (res_FILENAME r) w0 = (Inr r, w1))"
  using assms
proof (induction fs arbitrary: rs w)
  case Nil
  then show ?case by simp
next
  case (Cons f fs)
  from Cons.prems obtain r w1 rs' where
    one: "processImage lib c d b f w = (Inr r, w1)"
    and rest: "processImages lib c d b fs w1 = (Inr rs', w')"
    and rs: "rs = r # rs'"
    by (auto split: prod.splits sum.splits)
  note f = processImage_basic(1) [OF one] and t = processImage_basic(2) [OF one]
    and u = processImage_basic(3) [OF one]
  from Cons.IH [OF rest] f t u rs one show ?case
    by auto
qed

subsection \<open>The threshold\<close>

lemma segmentation_fixed:
  assumes "0 \<le> ft" and "segmentation lib ft locs ddx ddy a c w = (Inr (t, m), w')"
  shows "t = ft" and "w' = w" and "m = map (map (\<lambda>p. \<not> p < ft)) c"
  using assms by (auto simp: segmentation_def effect_eqs np_mask_below_Inr)

lemma segmentation_auto:
  assumes "ft < 0" and "segmentation lib ft locs ddx ddy a c w = (Inr (t, m), w')"
  shows "\<exists>win bd. trimWindow lib locs ddx ddy a = Inr win \<and>
           automaticThreshold lib (slice2 win c) = Inr (t, bd) \<and>
           w' = w\<lparr>trace := trace w @ [AutomaticThreshold (slice2 win c)]\<rparr>"
  using assms by (auto simp: segmentation_def effect_eqs)

subsection \<open>The event log\<close>

lemma fit_calls_append: "fit_calls (xs @ ys) = fit_calls xs @ fit_calls ys"
  by (induction xs rule: fit_calls.induct) simp_all

lemma fit_calls_opens: "fit_calls (map OpenImage ps) = []"
  by (induction ps) simp_all



lemma opens_onlyD:
  "opens_only m \<Longrightarrow> m w = (r, w') \<Longrightarrow> \<exists>ps. trace w' = trace w @ map OpenImage ps"
  by (auto simp: opens_only_def)

lemma opens_only_ret: "opens_only (ret x)"
  by (simp add: opens_only_def ret_def)

lemma opens_only_raise: "opens_only (raise e)"
  by (simp add: opens_only_def raise_def)

lemma opens_only_pure_call: "opens_only (pure_call c)"
  by (simp add: opens_only_def pure_call_def)

lemma opens_only_write_file: "opens_only (write_file p c)"
  by (auto simp: opens_only_def write_file_def split: option.splits)

lemma opens_only_read: "opens_only (\<lambda>w. (g w, w))"
  by (simp add: opens_only_def)

lemma opens_only_open_image: "opens_only (open_image lib p)"
  unfolding opens_only_def open_image_eq
  by (auto intro: exI [of _ "[p]"])

lemma opens_only_then_do:
  assumes "opens_only m" and "\<And>x. opens_only (f x)"
  shows "opens_only (then_do m f)"
  unfolding opens_only_def
proof (intro allI impI)
  fix w r w'
  assume run: "then_do m f w = (r, w')"
  show "\<exists>ps. trace w' = trace w @ map OpenImage ps"
  proof (cases "m w")
    case (Pair r1 w1)
    from opens_onlyD [OF assms(1) Pair] obtain ps1 where
      t1: "trace w1 = trace w @ map OpenImage ps1" by blast
    show ?thesis
    proof (cases r1)
      case (Inl e)
      with run Pair have "w' = w1" by (simp add: then_do_def)
      with t1 show ?thesis by blast
    next
      case (Inr x)
      with run Pair have "f x w1 = (r, w')" by (simp add: then_do_def)
      from opens_onlyD [OF assms(2) this] obtain ps2 where
        "trace w' = trace w1 @ map OpenImage ps2" by blast
      with t1 have "trace w' = trace w @ map OpenImage (ps1 @ ps2)" by simp
      then show ?thesis by blast
    qed
  qed
qed

lemma opens_only_if:
  "(c \<Longrightarrow> opens_only a) \<Longrightarrow> (\<not> c \<Longrightarrow> opens_only b) \<Longrightarrow> opens_only (if c then a else b)"
  by simp

lemma opens_only_case_prod:
  "(\<And>a b. opens_only (f a b)) \<Longrightarrow> opens_only (case x of (a, b) \<Rightarrow> f a b)"
  by (cases x) simp

lemma opens_only_case_option:
  "opens_only a \<Longrightarrow> (\<And>x. opens_only (f x)) \<Longrightarrow> opens_only (case v of None \<Rightarrow> a | Some x \<Rightarrow> f x)"
  by (cases v) simp_all

lemmas opens_only_intros =
  opens_only_then_do opens_only_ret opens_only_raise opens_only_pure_call
  opens_only_write_file opens_only_open_image opens_only_if opens_only_case_prod
  opens_only_case_option opens_only_read

lemma opens_only_processImage: "opens_only (processImage lib c d b f)"
  unfolding processImage_def saveColonyzer_def
  by (intro opens_only_intros)

lemma opens_only_processImages: "opens_only (processImages lib c d b fs)"
proof (induction fs)
  case Nil
  show ?case by (simp add: opens_only_def)
next
  case (Cons f fs)
  have "processImages lib c d b (f # fs) =
          then_do (processImage lib c d b f) (\<lambda>r.
            then_do (processImages lib c d b fs) (\<lambda>rs. ret (r # rs)))"
    by (rule ext) (simp add: then_do_def ret_def split: prod.splits sum.splits)
  then show ?case
    using Cons by (simp add: opens_only_intros opens_only_processImage)
qed

lemma opens_only_segmentation:
  "0 \<le> ft \<Longrightarrow> opens_only (segmentation lib ft locs ddx ddy a c)"
  unfolding segmentation_def
  by (simp add: opens_only_intros)

lemma opens_only_processBarcode:
  "0 \<le> var_fixedThresh var \<Longrightarrow> opens_only (processBarcode lib var d)"
  unfolding processBarcode_def analyseBatch_def createLockFile_def openLatestEarliest_def Let_def
  by (intro opens_only_intros opens_only_processImages opens_only_segmentation)

subsection \<open>Files are never removed, the log is never shortened\<close>

lemma path_exists_update:
  "path_exists (w\<lparr>files := AList.update p c (files w)\<rparr>) q \<longleftrightarrow> q = p \<or> path_exists w q"
  by (auto simp: path_exists_def update_conv')

lemma path_exists_trace: "path_exists (w\<lparr>trace := t\<rparr>) q = path_exists w q"
  by (simp add: path_exists_def)

lemma growsD:
  assumes "grows m" and "m w = (r, w')"
  shows "\<exists>es. trace w' = trace w @ es" and "path_exists w p \<Longrightarrow> path_exists w' p"
  using assms by (auto simp: grows_def)

lemma grows_ret: "grows (ret x)"
  by (simp add: grows_def ret_def)

lemma grows_raise: "grows (raise e)"
  by (simp add: grows_def raise_def)

lemma grows_pure_call: "grows (pure_call c)"
  by (simp add: grows_def pure_call_def)

lemma grows_read: "grows (\<lambda>w. (g w, w))"
  by (simp add: grows_def)

lemma grows_write_file: "grows (write_file p c)"
  by (auto simp: grows_def write_file_def path_exists_update split: option.splits)

lemma grows_open_image: "grows (open_image lib p)"
  by (auto simp: grows_def open_image_eq path_exists_trace)

lemma grows_automatic_threshold: "grows (automatic_threshold lib a)"
  by (auto simp: grows_def automatic_threshold_eq path_exists_trace)

lemma grows_then_do:
  assumes "grows m" and "\<And>x. grows (f x)"
  shows "grows (then_do m f)"
  unfolding grows_def
proof (intro allI impI)
  fix w r w'
  assume run: "then_do m f w = (r, w')"
  obtain r1 w1 where first: "m w = (r1, w1)" by (cases "m w")
  from growsD [OF assms(1) first] obtain es1 where
    t1: "trace w1 = trace w @ es1" and f1: "\<And>p. path_exists w p \<Longrightarrow> path_exists w1 p"
    by blast
  show "(\<exists>es. trace w' = trace w @ es) \<and> (\<forall>p. path_exists w p \<longrightarrow> path_exists w' p)"
  proof (cases r1)
    case (Inl e)
    with run first have "w' = w1" by (simp add: then_do_def)
    with t1 f1 show ?thesis by blast
  next
    case (Inr x)
    with run first have second: "f x w1 = (r, w')" by (simp add: then_do_def)
    from growsD [OF assms(2) second] obtain es2 where
      t2: "trace w' = trace w1 @ es2" and f2: "\<And>p. path_exists w1 p \<Longrightarrow> path_exists w' p"
      by blast
    from t1 t2 have "trace w' = trace w @ (es1 @ es2)" by simp
    with f1 f2 show ?thesis by blast
  qed
qed

lemma grows_if: "(c \<Longrightarrow> grows a) \<Longrightarrow> (\<not> c \<Longrightarrow> grows b) \<Longrightarrow> grows (if c then a else b)"
  by simp

lemma grows_case_prod: "(\<And>a b. grows (f a b)) \<Longrightarrow> grows (case x of (a, b) \<Rightarrow> f a b)"
  by (cases x) simp

lemma grows_case_option:
  "grows a \<Longrightarrow> (\<And>x. grows (f x)) \<Longrightarrow> grows (case v of None \<Rightarrow> a | Some x \<Rightarrow> f x)"
  by (cases v) simp_all

lemmas grows_intros =
  grows_then_do grows_ret grows_raise grows_pure_call grows_write_file grows_open_image
  grows_automatic_threshold grows_if grows_case_prod grows_case_option grows_read

lemma grows_processImage: "grows (processImage lib c d b f)"
  unfolding processImage_def saveColonyzer_def
  by (intro grows_intros)

lemma processImages_Cons:
  "processImages lib c d b (f # fs) =
     then_do (processImage lib c d b f) (\<lambda>r.
       then_do (processImages lib c d b fs) (\<lambda>rs. ret (r # rs)))"
  by (rule ext) (simp add: then_do_def ret_def split: prod.splits sum.splits)

lemma grows_processImages: "grows (processImages lib c d b fs)"
proof (induction fs)
  case Nil
  show ?case by (simp add: grows_def)
next
  case (Cons f fs)
  then show ?case
    unfolding processImages_Cons by (intro grows_intros grows_processImage)
qed

lemma grows_analyseBatch: "grows (analyseBatch lib var d B InsData L n z)"
  unfolding analyseBatch_def segmentation_def Let_def
  by (intro grows_intros grows_processImages)

lemma processBarcode_start:
  assumes prep: "prepareTimecourse lib d = Inr (B, imdir, InsData, L, E, imRoot)"
    and lock: "unwritable w (lockPath E) = None"
    and pdf: "var_plots var \<Longrightarrow> unwritable w (outputPath E ''Output_Reports'' ''.pdf'') = None"
    and run: "processBarcode lib var d w = (r, w')"
  shows "map_of (files w) (lockPath E) = Some c \<Longrightarrow> \<exists>c'. map_of (files w') (lockPath E) = Some c'"
    and "path_exists w' (lockPath E)"
    and "\<exists>es. trace w' = trace w @ OpenImage L # es"
proof -
  define w1 where "w1 = w\<lparr>files := AList.update (lockPath E) Empty
      (if var_plots var
       then AList.update (outputPath E ''Output_Reports'' ''.pdf'') Report (files w)
       else files w)\<rparr>"
  define w2 where "w2 = w1\<lparr>trace := trace w @ [OpenImage L]\<rparr>"
  define K where "K = (\<lambda>x. then_do (if L = E then ret (x, x)
                                   else then_do (open_image lib E) (\<lambda>z. ret (x, z)))
                            (\<lambda>(n, z). analyseBatch lib var d B InsData L n z))"
  have lk: "path_exists w2 (lockPath E)"
    by (simp add: w2_def w1_def path_exists_def update_conv')
  have tr: "trace w2 = trace w @ [OpenImage L]"
    by (simp add: w2_def)
  have eq: "processBarcode lib var d w =
              (case openImage lib L of Inl e \<Rightarrow> (Inl e, w2) | Inr x \<Rightarrow> K x w2)"
    unfolding processBarcode_def K_def w2_def w1_def
    using lock pdf
    by (cases "openImage lib L"; cases "var_plots var")
       (auto simp: prep then_do_def pure_call_def ret_def write_file_def createLockFile_def
          openLatestEarliest_def open_image_def log_event_def split: prod.splits sum.splits)
  have K: "grows (K x)" for x
    unfolding K_def by (intro grows_intros grows_analyseBatch)
  show ex: "path_exists w' (lockPath E)"
  proof (cases "openImage lib L")
    case (Inl e)
    with eq run lk show ?thesis by simp
  next
    case (Inr x)
    with eq run have "K x w2 = (r, w')" by simp
    from growsD(2) [OF K this lk] show ?thesis .
  qed
  then show "\<exists>c'. map_of (files w') (lockPath E) = Some c'"
    by (simp add: path_exists_def)
  show "\<exists>es. trace w' = trace w @ OpenImage L # es"
  proof (cases "openImage lib L")
    case (Inl e)
    with eq run tr show ?thesis by auto
  next
    case (Inr x)
    with eq run have "K x w2 = (r, w')" by simp
    from growsD(1) [OF K this] tr show ?thesis by auto
  qed
qed

subsection \<open>The loop over the barcodes of parseAndRun.py\<close>


lemma openLatestEarliest_Inr:
  assumes "openLatestEarliest lib L E w = (Inr (n, z), w')"
  shows "openImage lib L = Inr n"
    and "w' = w\<lparr>trace := trace w @ map OpenImage (if L = E then [L] else [L, E])\<rparr>"
    and "L = E \<Longrightarrow> z = n"
    and "L \<noteq> E \<Longrightarrow> openImage lib E = Inr z"
  using assms
  by (auto simp: openLatestEarliest_def then_do_def open_image_def log_event_def pure_call_def
        ret_def split: if_splits prod.splits sum.splits)


lemma analyseBatch_Inr:
  assumes "analyseBatch lib var d B InsData L (imN, aN) (im0, a0) w = (Inr res, w')"
  shows "BARCODE (res_batch res) = B"
    and "arrN (res_batch res) = aN"
    and "lightingCorrection lib (var_lc var) (var_cut var) aN a0 (locationsN (res_batch res)) =
           Inr (correction_map (res_batch res), average_back (res_batch res),
                corrected_arrN (res_batch res))"
    and "\<exists>w3. segmentation lib (var_fixedThresh var) (locationsN (res_batch res))
                 (dx (res_batch res)) (dy (res_batch res)) aN (corrected_arrN (res_batch res)) w =
                 (Inr (thresh (res_batch res), maskN (res_batch res)), w3) \<and>
               processImages lib (var_lc var) (var_diffims var) (res_batch res)
                 (the (map_of d B)) w3 = (Inr (res_images res), w')"
    and "dropStarted w' d = Inr (res_barcdict res)"
  using assms
  unfolding analyseBatch_def
  by (auto simp: effect_eqs Let_def)

lemma processBarcode_Inr:
  assumes run: "processBarcode lib var d w = (Inr res, w')"
    and prep: "prepareTimecourse lib d = Inr (B, imdir, InsData, L, E, imRoot)"
  shows "\<exists>imN aN im0 a0 w2.
           openLatestEarliest lib L E
             (w\<lparr>files := AList.update (lockPath E) Empty
                  (if var_plots var
                   then AList.update (outputPath E ''Output_Reports'' ''.pdf'') Report (files w)
                   else files w)\<rparr>) = (Inr ((imN, aN), (im0, a0)), w2) \<and>
           analyseBatch lib var d B InsData L (imN, aN) (im0, a0) w2 = (Inr res, w')"
  using run
  unfolding processBarcode_def createLockFile_def
  by (cases "var_plots var") (auto simp: effect_eqs prep)

lemma processBarcode_prepared:
  assumes "processBarcode lib var d w = (Inr res, w')"
  shows "\<exists>B imdir InsData L E imRoot.
           prepareTimecourse lib d = Inr (B, imdir, InsData, L, E, imRoot)"
  using assms
  unfolding processBarcode_def
  by (auto simp: effect_eqs)

text \<open>What a successful pass over one barcode has done, stage by stage.\<close>

lemma processBarcode_stages:
  assumes run: "processBarcode lib var d w = (Inr res, w')"
  obtains B imdir InsData L E imRoot imN im0 a0 w1 w2 w3 where
    "prepareTimecourse lib d = Inr (B, imdir, InsData, L, E, imRoot)"
    and "BARCODE (res_batch res) = B"
    and "w1 = w\<lparr>files := AList.update (lockPath E) Empty
              (if var_plots var
               then AList.update (outputPath E ''Output_Reports'' ''.pdf'') Report (files w)
               else files w)\<rparr>"
    and "openLatestEarliest lib L E w1 = (Inr ((imN, arrN (res_batch res)), (im0, a0)), w2)"
    and "lightingCorrection lib (var_lc var) (var_cut var) (arrN (res_batch res)) a0
           (locationsN (res_batch res)) =
           Inr (correction_map (res_batch res), average_back (res_batch res),
                corrected_arrN (res_batch res))"
    and "segmentation lib (var_fixedThresh var) (locationsN (res_batch res))
           (dx (res_batch res)) (dy (res_batch res)) (arrN (res_batch res))
           (corrected_arrN (res_batch res)) w2 =
           (Inr (thresh (res_batch res), maskN (res_batch res)), w3)"
    and "processImages lib (var_lc var) (var_diffims var) (res_batch res)
           (the (map_of d B)) w3 = (Inr (res_images res), w')"
    and "dropStarted w' d = Inr (res_barcdict res)"
proof -
  from processBarcode_prepared [OF run] obtain B imdir InsData L E imRoot where
    prep: "prepareTimecourse lib d = Inr (B, imdir, InsData, L, E, imRoot)"
    by (elim exE) (rule that)
  from processBarcode_Inr [OF run prep] obtain imN aN im0 a0 w2 where
    opn: "openLatestEarliest lib L E
             (w\<lparr>files := AList.update (lockPath E) Empty
                  (if var_plots var
                   then AList.update (outputPath E ''Output_Reports'' ''.pdf'') Report (files w)
                   else files w)\<rparr>) = (Inr ((imN, aN), (im0, a0)), w2)"
    and rest: "analyseBatch lib var d B InsData L (imN, aN) (im0, a0) w2 = (Inr res, w')"
    by (elim exE conjE) (rule that)
  note ab = analyseBatch_Inr [OF rest]
  from ab(4) obtain w3 where
    seg: "segmentation lib (var_fixedThresh var) (locationsN (res_batch res))
            (dx (res_batch res)) (dy (res_batch res)) aN (corrected_arrN (res_batch res)) w2 =
            (Inr (thresh (res_batch res), maskN (res_batch res)), w3)"
    and imgs: "processImages lib (var_lc var) (var_diffims var) (res_batch res)
                 (the (map_of d B)) w3 = (Inr (res_images res), w')"
    by (elim exE conjE) (rule that)
  show thesis
    by (rule that [OF prep ab(1) refl opn [folded ab(2)] ab(3) [folded ab(2)]
          seg [folded ab(2)] imgs ab(5)])
qed

subsection \<open>buildVars\<close>

lemma gridFormat_many: "length f > 2 \<Longrightarrow> gridFormat lib f = Inr (0, 0)"
  by (simp add: gridFormat_def)

lemma buildVars_quiet:
  assumes "parseArgs lib s = Inr inp" and "quiet inp"
  shows "buildVars lib s =
           (case buildVars_options lib (dir inp) (fmt inp) (usedict inp) (logsdir inp) of
              Inl e \<Rightarrow> Inl e
            | Inr opts \<Rightarrow> Inl (NameError ''cut''))"
  using assms
  by (simp add: buildVars_def bind_err_def Let_def split: sum.splits prod.splits)

lemma buildVars_options_unfold:
  "buildVars_options lib d f u ldir =
     (case (case d of None \<Rightarrow> getcwd lib | Some d' \<Rightarrow> realpath lib d') of
        Inl e \<Rightarrow> Inl e
      | Inr fdir \<Rightarrow>
          (case gridFormat lib f of
             Inl e \<Rightarrow> Inl e
           | Inr grid \<Rightarrow>
               (case fdictOf lib u ldir of
                  Inl e \<Rightarrow> Inl e
                | Inr fdict \<Rightarrow>
                    (case (case fdict of None \<Rightarrow> Inr False | Some p \<Rightarrow> os_exists lib p) of
                       Inl e \<Rightarrow> Inl e
                     | Inr _ \<Rightarrow> Inr (fdir, grid, fdict)))))"
  by (simp add: buildVars_options_def bind_err_def split: sum.splits)

lemma main_buildVars_Inl: "buildVars lib s = Inl e \<Longrightarrow> main fuel lib s w = Some (Inl e, w)"
  by (simp add: main_def)

lemma example_parse_quiet:
  "parseArgs example_lib ''-q -f 5'' = Inr (default_args\<lparr>quiet := True, fixthresh := Some 5\<rparr>)"
  by (simp add: parseArgs_def example_lib_def example_split_def example_parse_def)

lemma example_options:
  "buildVars_options example_lib (Some ''.'') [''384''] None ''.'' = Inr (''/d'', (16, 24), None)"
  by (simp add: buildVars_options_def bind_err_def gridFormat_def fdictOf_def example_lib_def)

text \<open>
  Claim C10, as amended. Whenever the parsed command line of parseAndRun.py has the quiet
  flag set, \<^verbatim>\<open>buildVars\<close> raises before it returns a configuration, and main ends
  with that exception, the file system and the event log being as they were: no image is
  opened. The exception is the first one raised by the steps of lines 62 to 86, in their
  order: resolving the search directory, the grid format, resolving the manifest path,
  testing whether the manifest exists. When none of them raises, it is the NameError for
  the unbound local \<^verbatim>\<open>cut\<close> of line 121.
\<close>

theorem quiet_never_returns:
  assumes "parseArgs lib s = Inr inp" and "quiet inp"
  shows "buildVars lib s =
           (case (case dir inp of None \<Rightarrow> getcwd lib | Some d' \<Rightarrow> realpath lib d') of
              Inl e \<Rightarrow> Inl e
            | Inr fdir \<Rightarrow>
                (case gridFormat lib (fmt inp) of
                   Inl e \<Rightarrow> Inl e
                 | Inr grid \<Rightarrow>
                     (case fdictOf lib (usedict inp) (logsdir inp) of
                        Inl e \<Rightarrow> Inl e
                      | Inr fdict \<Rightarrow>
                          (case (case fdict of None \<Rightarrow> Inr False | Some p \<Rightarrow> os_exists lib p) of
                             Inl e \<Rightarrow> Inl e
                           | Inr _ \<Rightarrow> Inl (NameError ''cut''))))) \<and>
         (\<exists>e. buildVars lib s = Inl e \<and> main fuel lib s w = Some (Inl e, w))"
proof -
  have first: "buildVars lib s =
           (case (case dir inp of None \<Rightarrow> getcwd lib | Some d' \<Rightarrow> realpath lib d') of
              Inl e \<Rightarrow> Inl e
            | Inr fdir \<Rightarrow>
                (case gridFormat lib (fmt inp) of
                   Inl e \<Rightarrow> Inl e
                 | Inr grid \<Rightarrow>
                     (case fdictOf lib (usedict inp) (logsdir inp) of
                        Inl e \<Rightarrow> Inl e
                      | Inr fdict \<Rightarrow>
                          (case (case fdict of None \<Rightarrow> Inr False | Some p \<Rightarrow> os_exists lib p) of
                             Inl e \<Rightarrow> Inl e
                           | Inr _ \<Rightarrow> Inl (NameError ''cut'')))))"
    unfolding buildVars_quiet [OF assms] buildVars_options_unfold
    by (simp split: sum.splits)
  then have "\<exists>e. buildVars lib s = Inl e"
    by (auto split: sum.splits)
  with first show ?thesis
    by (auto simp: main_buildVars_Inl)
qed

text \<open>The amended claim at \<^verbatim>\<open>-q -f 5\<close>: every step of lines 62 to 86 succeeds and the
  exception is the NameError.\<close>

theorem quiet_never_returns_witness:
  "parseArgs example_lib ''-q -f 5'' = Inr (default_args\<lparr>quiet := True, fixthresh := Some 5\<rparr>) \<and>
   quiet (default_args\<lparr>quiet := True, fixthresh := Some 5\<rparr>) \<and>
   buildVars example_lib ''-q -f 5'' = Inl (NameError ''cut'') \<and>
   main 3 example_lib ''-q -f 5'' example_world = Some (Inl (NameError ''cut''), example_world)"
proof -
  have q: "quiet (default_args\<lparr>quiet := True, fixthresh := Some 5\<rparr>)" by simp
  from quiet_never_returns [OF example_parse_quiet q, of 3 example_world]
  have "buildVars example_lib ''-q -f 5'' = Inl (NameError ''cut'') \<and>
        main 3 example_lib ''-q -f 5'' example_world = Some (Inl (NameError ''cut''), example_world)"
    by (auto simp: default_args_def example_lib_def gridFormat_def fdictOf_def)
  with example_parse_quiet q show ?thesis
    by simp
qed

text \<open>Claim C10 as stated fails at \<^verbatim>\<open>-q -o a b\<close>: the quiet flag is set, and the
  exception is the ValueError of \<^verbatim>\<open>int('a')\<close> on line 78, not a NameError.\<close>

theorem quiet_ValueError_counterexample:
  "parseArgs example_lib ''-q -o a b'' = Inr (default_args\<lparr>quiet := True, fmt := [''a'', ''b'']\<rparr>) \<and>
   quiet (default_args\<lparr>quiet := True, fmt := [''a'', ''b'']\<rparr>) \<and>
   buildVars example_lib ''-q -o a b'' = Inl ValueError"
  by (simp add: buildVars_def buildVars_options_def bind_err_def gridFormat_def parseArgs_def
        example_lib_def example_split_def example_parse_def default_args_def)

subsection \<open>The loop over the barcodes of timecourse\_fixedpos.py\<close>

lemma processImage_fp_Inr:
  assumes "processImage_fp lib c b f w = (Inr r, w')"
  shows "\<exists>im a0 locs pv.
           openImage lib f = Inr (im, a0) \<and>
           (if c then \<exists>cmap. correction_map b = Some cmap \<and> np_mul a0 cmap = Inr (res_arr r)
            else res_arr r = a0) \<and>
           res_threshadj r = thresh b \<and>
           shape (arrN b) = shape (res_arr r) \<and>
           res_mask r = map (map (\<lambda>p. \<not> p < thresh b)) (arrN b) \<and>
           measureSizeAndColour lib (locationsN b) (res_arr r) im (res_mask r)
             (average_back b) (BARCODE b) (py_drop_suffix 4 f) = Inr locs \<and>
           r = \<lparr>res_FILENAME = f, res_im = im, res_arr = res_arr r,
                res_threshadj = res_threshadj r, res_mask = res_mask r, res_locations = locs\<rparr> \<and>
           trace w' = trace w @ [OpenImage f] \<and>
           unwritable w' = unwritable w \<and>
           files w' =
             AList.update (outputPath f ''Output_Images'' ''.png'') pv
               (AList.update (outputPath f ''Output_Data'' ''.dat'')
                  (Dat locs (thresh b) (dx b) (dy b))
                  (AList.update (outputPath f ''Output_Data'' ''.out'') (Table locs) (files w)))"
proof (cases c; cases "correction_map b")
qed (use assms in \<open>auto simp: processImage_fp_def saveColonyzer_def then_do_Inr ret_eq raise_eq
      pure_call_eq write_file_Inr open_image_eq np_mask_below_Inr\<close>)

lemma processImage_fp_basic:
  assumes "processImage_fp lib c b f w = (Inr r, w')"
  shows "res_FILENAME r = f"
    and "trace w' = trace w @ [OpenImage f]"
    and "unwritable w' = unwritable w"
proof -
  from processImage_fp_Inr [OF assms] obtain im locs where
    r: "r = \<lparr>res_FILENAME = f, res_im = im, res_arr = res_arr r,
              res_threshadj = res_threshadj r, res_mask = res_mask r, res_locations = locs\<rparr>"
    and t: "trace w' = trace w @ [OpenImage f]"
    and u: "unwritable w' = unwritable w"
    by (elim exE conjE) (rule that)
  from r have "res_FILENAME r = res_FILENAME \<lparr>res_FILENAME = f, res_im = im, res_arr = res_arr r,
              res_threshadj = res_threshadj r, res_mask = res_mask r, res_locations = locs\<rparr>"
    by (rule arg_cong)
  then show "res_FILENAME r = f" by simp
  from t show "trace w' = trace w @ [OpenImage f]" .
  from u show "unwritable w' = unwritable w" .
qed

lemma processImages_fp_Inr:
  assumes "processImages_fp lib c b fs w = (Inr rs, w')"
  shows "map res_FILENAME rs = fs \<and> trace w' = trace w @ map OpenImage fs \<and>
         unwritable w' = unwritable w \<and>
         (\<forall>r \<in> set rs. \<exists>w0 w1. processImage_fp lib c b (res_FILENAME r) w0 = (Inr r, w1))"
  using assms
proof (induction fs arbitrary: rs w)
  case Nil
  then show ?case by simp
next
  case (Cons f fs)
  from Cons.prems obtain r w1 rs' where
    one: "processImage_fp lib c b f w = (Inr r, w1)"
    and rest: "processImages_fp lib c b fs w1 = (Inr rs', w')"
    and rs: "rs = r # rs'"
    by (auto split: prod.splits sum.splits)
  note f = processImage_fp_basic(1) [OF one] and t = processImage_fp_basic(2) [OF one]
    and u = processImage_fp_basic(3) [OF one]
  from Cons.IH [OF rest] f t u rs one show ?case
    by auto
qed

lemma segmentation_fp_fixed:
  assumes "0 \<le> ft" and "segmentation_fp lib ft tp B locs ddx ddy a w = (Inr (t, m), w')"
  shows "t = ft" and "w' = w"
  using assms by (auto simp: segmentation_fp_def effect_eqs)

lemma segmentation_fp_auto:
  assumes "ft < 0" and "segmentation_fp lib ft tp B locs ddx ddy a w = (Inr (t, m), w')"
  shows "\<exists>win bd. trimWindow lib locs ddx ddy a = Inr win \<and>
           automaticThreshold lib (slice2 win a) = Inr (t, bd) \<and>
           trace w' = trace w @ [AutomaticThreshold (slice2 win a)]"
  using assms by (cases tp) (auto simp: segmentation_fp_def effect_eqs)


lemma analyseBatch_fp_Inr:
  assumes "analyseBatch_fp lib var d B InsData L (imN, aN) (im0, a0) w = (Inr res, w')"
  shows "BARCODE (res_batch res) = B"
    and "arrN (res_batch res) = aN"
    and "\<exists>w3. segmentation_fp lib (var_fixedThresh_fp var) (var_threshplots_fp var) B
                 (locationsN (res_batch res)) (dx (res_batch res)) (dy (res_batch res)) aN w =
                 (Inr (thresh (res_batch res), maskN (res_batch res)), w3) \<and>
               processImages_fp lib (var_lc_fp var) (res_batch res)
                 (the (map_of d B)) w3 = (Inr (res_images res), w')"
    and "dropStarted w' d = Inr (res_barcdict res)"
  using assms
  unfolding analyseBatch_fp_def
  by (auto simp: effect_eqs Let_def)

lemma processBarcode_fp_Inr:
  assumes run: "processBarcode_fp lib var d w = (Inr res, w')"
    and prep: "prepareTimecourse lib d = Inr (B, imdir, InsData, L, E, imRoot)"
  shows "\<exists>imN aN im0 a0.
           openImage lib L = Inr (imN, aN) \<and> openImage lib E = Inr (im0, a0) \<and>
           analyseBatch_fp lib var d B InsData L (imN, aN) (im0, a0)
             (w\<lparr>files := AList.update (lockPath E) Empty (files w),
                trace := trace w @ [OpenImage L, OpenImage E]\<rparr>) = (Inr res, w')"
  using run
  unfolding processBarcode_fp_def createLockFile_def
  by (auto simp: effect_eqs prep)

lemma processBarcode_fp_prepared:
  assumes "processBarcode_fp lib var d w = (Inr res, w')"
  shows "\<exists>B imdir InsData L E imRoot.
           prepareTimecourse lib d = Inr (B, imdir, InsData, L, E, imRoot)"
  using assms
  unfolding processBarcode_fp_def
  by (auto simp: effect_eqs)

lemma processBarcode_fp_stages:
  assumes run: "processBarcode_fp lib var d w = (Inr res, w')"
  obtains B imdir InsData L E imRoot imN im0 a0 w2 w3 where
    "prepareTimecourse lib d = Inr (B, imdir, InsData, L, E, imRoot)"
    and "BARCODE (res_batch res) = B"
    and "openImage lib L = Inr (imN, arrN (res_batch res))"
    and "openImage lib E = Inr (im0, a0)"
    and "w2 = w\<lparr>files := AList.update (lockPath E) Empty (files w),
                  trace := trace w @ [OpenImage L, OpenImage E]\<rparr>"
    and "segmentation_fp lib (var_fixedThresh_fp var) (var_threshplots_fp var) B
           (locationsN (res_batch res)) (dx (res_batch res)) (dy (res_batch res))
           (arrN (res_batch res)) w2 =
           (Inr (thresh (res_batch res), maskN (res_batch res)), w3)"
    and "processImages_fp lib (var_lc_fp var) (res_batch res) (the (map_of d B)) w3 =
           (Inr (res_images res), w')"
    and "dropStarted w' d = Inr (res_barcdict res)"
proof -
  from processBarcode_fp_prepared [OF run] obtain B imdir InsData L E imRoot where
    prep: "prepareTimecourse lib d = Inr (B, imdir, InsData, L, E, imRoot)"
    by (elim exE) (rule that)
  from processBarcode_fp_Inr [OF run prep] obtain imN aN im0 a0 where
    oL: "openImage lib L = Inr (imN, aN)" and oE: "openImage lib E = Inr (im0, a0)"
    and rest: "analyseBatch_fp lib var d B InsData L (imN, aN) (im0, a0)
             (w\<lparr>files := AList.update (lockPath E) Empty (files w),
                trace := trace w @ [OpenImage L, OpenImage E]\<rparr>) = (Inr res, w')"
    by (elim exE conjE) (rule that)
  note ab = analyseBatch_fp_Inr [OF rest]
  from ab(3) obtain w3 where
    seg: "segmentation_fp lib (var_fixedThresh_fp var) (var_threshplots_fp var) B
            (locationsN (res_batch res)) (dx (res_batch res)) (dy (res_batch res)) aN
            (w\<lparr>files := AList.update (lockPath E) Empty (files w),
                trace := trace w @ [OpenImage L, OpenImage E]\<rparr>) =
            (Inr (thresh (res_batch res), maskN (res_batch res)), w3)"
    and imgs: "processImages_fp lib (var_lc_fp var) (res_batch res) (the (map_of d B)) w3 =
                 (Inr (res_images res), w')"
    by (elim exE conjE) (rule that)
  show thesis
    by (rule that [OF prep ab(1) oL [folded ab(2)] oE refl seg [folded ab(2)] imgs ab(4)])
qed

lemma opens_only_processImage_fp: "opens_only (processImage_fp lib c b f)"
  unfolding processImage_fp_def saveColonyzer_def
  by (intro opens_only_intros)

lemma opens_only_processImages_fp: "opens_only (processImages_fp lib c b fs)"
proof (induction fs)
  case Nil
  show ?case by (simp add: opens_only_def)
next
  case (Cons f fs)
  have "processImages_fp lib c b (f # fs) =
          then_do (processImage_fp lib c b f) (\<lambda>r.
            then_do (processImages_fp lib c b fs) (\<lambda>rs. ret (r # rs)))"
    by (rule ext) (simp add: then_do_def ret_def split: prod.splits sum.splits)
  then show ?case
    using Cons by (simp add: opens_only_intros opens_only_processImage_fp)
qed

lemma opens_only_segmentation_fp:
  "0 \<le> ft \<Longrightarrow> opens_only (segmentation_fp lib ft tp B locs ddx ddy a)"
  unfolding segmentation_fp_def
  by (simp add: opens_only_intros)

lemma opens_only_processBarcode_fp:
  "0 \<le> var_fixedThresh_fp var \<Longrightarrow> opens_only (processBarcode_fp lib var d)"
  unfolding processBarcode_fp_def analyseBatch_fp_def createLockFile_def Let_def
  by (intro opens_only_intros opens_only_processImages_fp opens_only_segmentation_fp)

subsection \<open>Runs of the example\<close>

lemma example_parse_f5:
  "parseArgs example_lib ''-f 5'' = Inr (default_args\<lparr>fixthresh := Some 5\<rparr>)"
  by (simp add: parseArgs_def example_lib_def example_split_def example_parse_def)

lemma example_buildVars: "buildVars example_lib ''-f 5'' = Inr example_vars"
  by (simp add: buildVars_def buildVars_options_def bind_err_def gridFormat_def fdictOf_def
        parseArgs_def example_lib_def example_split_def example_parse_def default_args_def
        example_vars_def)

lemma example_parse_fp_f5:
  "parseArgs_fp example_lib ''-f 5'' = Inr (default_args_fp\<lparr>fixthresh_fp := Some 5\<rparr>)"
  by (simp add: parseArgs_fp_def example_lib_def example_split_def example_parse_fp_def)

lemma example_buildVars_fp: "buildVars_fp example_lib ''-f 5'' True = Inr example_vars_fp"
  by (simp add: buildVars_fp_def buildVars_options_def bind_err_def gridFormat_def fdictOf_def
        parseArgs_fp_def example_lib_def example_split_def example_parse_fp_def
        default_args_fp_def example_vars_fp_def)

lemma example_prepare:
  "prepareTimecourse example_lib example_barcdict =
     Inr (''K01'', ''/d'', [''default'' \<mapsto> ([1], [1], 2, 2)], img2, img1,
          ''/d/K01_2014-01-01_10-00-00'')"
  by (simp add: prepareTimecourse_def example_barcdict_def example_lib_def img1_def img2_def
        dirname_def split_dot_0_def)


lemma example_run:
  "\<exists>res w'. processBarcode example_lib example_vars example_barcdict example_world = (Inr res, w')"
proof -
  have "case processBarcode example_lib example_vars example_barcdict example_world of
          (Inr res, w') \<Rightarrow> True | (Inl e, w') \<Rightarrow> False"
    by code_simp
  then show ?thesis
    by (auto split: prod.splits sum.splits)
qed

lemma example_run_fp:
  "\<exists>res w'. processBarcode_fp example_lib example_vars_fp example_barcdict example_world =
     (Inr res, w')"
proof -
  have "case processBarcode_fp example_lib example_vars_fp example_barcdict example_world of
          (Inr res, w') \<Rightarrow> True | (Inl e, w') \<Rightarrow> False"
    by code_simp
  then show ?thesis
    by (auto split: prod.splits sum.splits)
qed



subsection \<open>Signal removal\<close>

lemma lightingCorrection_cut:
  "lightingCorrection lib True True a a0 locs = Inl (NameError ''getEdges'')"
  by (simp add: lightingCorrection_def edgeFill_def)

lemma processBarcode_cut_fails:
  assumes "var_lc var" and "var_cut var"
  shows "processBarcode lib var d w \<noteq> (Inr res, w')"
proof
  assume run: "processBarcode lib var d w = (Inr res, w')"
  from run obtain a0 where
    "lightingCorrection lib (var_lc var) (var_cut var) (arrN (res_batch res)) a0
       (locationsN (res_batch res)) =
       Inr (correction_map (res_batch res), average_back (res_batch res),
            corrected_arrN (res_batch res))"
    by (rule processBarcode_stages)
  with assms show False
    by (simp add: lightingCorrection_cut)
qed

text \<open>
  Claim C8 (the code breaks it). With lighting correction and the cut option, line 222
  calls \<^verbatim>\<open>edgeFill\<close>, whose first statement raises NameError for \<^verbatim>\<open>getEdges\<close>: once
  the culture locations are known the pass over the barcode ends with that exception,
  nothing further is opened or written, and no pass in this mode ever completes. No
  correction map is built from an inpainted plate.
\<close>

theorem signal_removal_raises:
  assumes "var_lc var" and "var_cut var"
    and "initialGuesses lib (var_initpos var) L InsData (snd n) (var_ncol var) (var_nrow var) =
           Inr (g, crn, cm, gs)"
    and "locate lib g (snd n) (var_ncol var) (var_nrow var) = Inr locs"
  shows "analyseBatch lib var d B InsData L n z w = (Inl (NameError ''getEdges''), w) \<and>
         processBarcode lib var d w \<noteq> (Inr res, w')"
  using assms processBarcode_cut_fails [OF assms(1,2), of lib d w res w']
  by (simp add: analyseBatch_def then_do_def pure_call_def lightingCorrection_cut)

text \<open>Claim C8 at \<^verbatim>\<open>-c -x -f 5\<close> on the example plate.\<close>

theorem signal_removal_raises_witness:
  "var_lc (example_vars\<lparr>var_lc := True, var_cut := True\<rparr>) \<and>
   var_cut (example_vars\<lparr>var_lc := True, var_cut := True\<rparr>) \<and>
   buildVars example_lib ''-c -x -f 5'' = Inr (example_vars\<lparr>var_lc := True, var_cut := True\<rparr>) \<and>
   analyseBatch example_lib (example_vars\<lparr>var_lc := True, var_cut := True\<rparr>) example_barcdict
     ''K01'' [''default'' \<mapsto> ([1], [1], 2, 2)] img2 (img2, [[1, 9], [9, 1]])
     (img1, [[1, 1], [1, 9]]) example_world = (Inl (NameError ''getEdges''), example_world)"
proof -
  have g: "initialGuesses example_lib (var_initpos (example_vars\<lparr>var_lc := True, var_cut := True\<rparr>))
             img2 [''default'' \<mapsto> ([1], [1], 2, 2)] (snd (img2, [[1, 9], [9, 1]]))
             (var_ncol (example_vars\<lparr>var_lc := True, var_cut := True\<rparr>))
             (var_nrow (example_vars\<lparr>var_lc := True, var_cut := True\<rparr>)) =
           Inr (([1], [1], 2, 2), (0, 0), (0, 0), (0, 0))"
    by (simp add: initialGuesses_def example_vars_def example_lib_def)
  have l: "locate example_lib ([1], [1], 2, 2) (snd (img2, [[1, 9], [9, 1]]))
             (var_ncol (example_vars\<lparr>var_lc := True, var_cut := True\<rparr>))
             (var_nrow (example_vars\<lparr>var_lc := True, var_cut := True\<rparr>)) = Inr [(0, 0, 0)]"
    by code_simp
  have b: "buildVars example_lib ''-c -x -f 5'' =
             Inr (example_vars\<lparr>var_lc := True, var_cut := True\<rparr>)"
    by (simp add: buildVars_def buildVars_options_def bind_err_def gridFormat_def fdictOf_def
          parseArgs_def example_lib_def example_split_def example_parse_def default_args_def
          example_vars_def)
  have c: "var_lc (example_vars\<lparr>var_lc := True, var_cut := True\<rparr>)"
    "var_cut (example_vars\<lparr>var_lc := True, var_cut := True\<rparr>)"
    by simp_all
  from signal_removal_raises [OF c g l] b c show ?thesis
    by blast
qed

lemma signal_removal_example:
  "map_option fst (main 3 example_lib ''-c -x -f 5'' example_world) =
     Some (Inl (NameError ''getEdges''))"
  by code_simp

subsection \<open>Opening the images of a batch\<close>






subsection \<open>Masks and per-image thresholds\<close>

lemma buildVars_Inr:
  assumes "parseArgs lib s = Inr inp" and "buildVars lib s = Inr var"
  shows "\<not> quiet inp"
    and "var_lc var = lc inp"
    and "var_diffims var = (lc inp \<and> diffims inp)"
    and "var_cut var = (lc inp \<and> cut inp)"
    and "var_fixedThresh var = (case fixthresh inp of Some t \<Rightarrow> t | None \<Rightarrow> - 99)"
proof -
  show q: "\<not> quiet inp"
  proof
    assume "quiet inp"
    from buildVars_quiet [OF assms(1) this] assms(2) show False
      by (simp split: sum.splits)
  qed
  from assms q obtain fdir nrow ncol fdict where
    "var = \<lparr>var_lc = lc inp,
             var_fixedThresh = (case fixthresh inp of Some t \<Rightarrow> t | None \<Rightarrow> - 99),
             var_plots = plots inp, var_initpos = initpos inp, var_fdict = fdict,
             var_fdir = fdir, var_nrow = nrow, var_ncol = ncol, var_cut = (lc inp \<and> cut inp),
             var_verbose = True, var_diffims = (lc inp \<and> diffims inp)\<rparr>"
    by (auto simp: buildVars_def bind_err_def Let_def split: sum.splits prod.splits)
  then show "var_lc var = lc inp"
    and "var_diffims var = (lc inp \<and> diffims inp)"
    and "var_cut var = (lc inp \<and> cut inp)"
    and "var_fixedThresh var = (case fixthresh inp of Some t \<Rightarrow> t | None \<Rightarrow> - 99)"
    by simp_all
qed

lemma processImage_mask:
  assumes "processImage lib c d b f w = (Inr r, w')"
  shows "res_mask r = map (map (\<lambda>p. \<not> p < res_threshadj r)) (corrected_arrN b)"
    and "\<not> d \<Longrightarrow> res_threshadj r = thresh b"
  using processImage_Inr [OF assms]
  by (auto split: if_splits)

lemma processImage_plain:
  assumes "processImage lib False False b f w = (Inr r, w')"
  shows "openImage lib (res_FILENAME r) = Inr (res_im r, res_arr r)"
proof -
  from processImage_Inr [OF assms] obtain im a0 locs where
    o: "openImage lib f = Inr (im, a0)" and a: "res_arr r = a0"
    and r: "r = \<lparr>res_FILENAME = f, res_im = im, res_arr = res_arr r,
              res_threshadj = res_threshadj r, res_mask = res_mask r, res_locations = locs\<rparr>"
    by (elim exE conjE) (rule that, simp_all)
  from r have "res_im r = res_im \<lparr>res_FILENAME = f, res_im = im, res_arr = res_arr r,
              res_threshadj = res_threshadj r, res_mask = res_mask r, res_locations = locs\<rparr>"
    by (rule arg_cong)
  then have "res_im r = im" by simp
  with o a processImage_basic(1) [OF assms] show ?thesis by simp
qed

lemma processImage_fp_mask:
  assumes "processImage_fp lib c b f w = (Inr r, w')"
  shows "res_mask r = map (map (\<lambda>p. \<not> p < thresh b)) (arrN b)"
    and "res_threshadj r = thresh b"
  using processImage_fp_Inr [OF assms]
  by (auto split: if_splits)



lemma processBarcode_fp_masks:
  assumes run: "processBarcode_fp lib var d w = (Inr res, w')"
  shows "(\<exists>imN. openImage lib (hd (the (map_of d (BARCODE (res_batch res))))) =
                  Inr (imN, arrN (res_batch res))) \<and>
         (\<forall>r \<in> set (res_images res).
            res_mask r = map (map (\<lambda>p. \<not> p < thresh (res_batch res))) (arrN (res_batch res)) \<and>
            res_threshadj r = thresh (res_batch res))"
proof -
  from run obtain B imdir InsData L E imRoot imN w3 where
    prep: "prepareTimecourse lib d = Inr (B, imdir, InsData, L, E, imRoot)"
    and B: "BARCODE (res_batch res) = B"
    and oL: "openImage lib L = Inr (imN, arrN (res_batch res))"
    and imgs: "processImages_fp lib (var_lc_fp var) (res_batch res) (the (map_of d B)) w3 =
           (Inr (res_images res), w')"
    by (rule processBarcode_fp_stages)
  from prepareTimecourse_Inr [OF prep] B
  have L: "L = hd (the (map_of d (BARCODE (res_batch res))))" by auto
  from oL L have one: "\<exists>imN. openImage lib (hd (the (map_of d (BARCODE (res_batch res))))) =
                  Inr (imN, arrN (res_batch res))"
    by auto
  from processImages_fp_Inr [OF imgs]
  have "\<forall>r \<in> set (res_images res).
            res_mask r = map (map (\<lambda>p. \<not> p < thresh (res_batch res))) (arrN (res_batch res)) \<and>
            res_threshadj r = thresh (res_batch res)"
    by (auto dest: processImage_fp_mask)
  with one show ?thesis by blast
qed




text \<open>
  Claim C6. When the parsed command line of parseAndRun.py has lighting correction off,
  every image of a completed pass over a barcode is measured with the base threshold
  itself as its adjusted threshold, and with the pixel array exactly as
  \<^verbatim>\<open>openImage\<close> returned it: nothing is added to the pixels or to the threshold. In
  timecourse\_fixedpos.py the adjusted threshold is the base threshold in every pass.
\<close>

theorem threshold_unadjusted_without_correction:
  "(parseArgs lib s = Inr inp \<and> \<not> lc inp \<and> buildVars lib s = Inr var \<and>
    processBarcode lib var d w = (Inr res, w') \<longrightarrow>
      (\<forall>r \<in> set (res_images res).
         res_threshadj r = thresh (res_batch res) \<and>
         openImage lib (res_FILENAME r) = Inr (res_im r, res_arr r))) \<and>
   (processBarcode_fp lib var_fp d w = (Inr res, w') \<longrightarrow>
      (\<forall>r \<in> set (res_images res). res_threshadj r = thresh (res_batch res)))"
proof (intro conjI impI)
  assume h: "parseArgs lib s = Inr inp \<and> \<not> lc inp \<and> buildVars lib s = Inr var \<and>
    processBarcode lib var d w = (Inr res, w')"
  then have off: "\<not> var_lc var" "\<not> var_diffims var"
    using buildVars_Inr(2,3) [of lib s inp var] by simp_all
  from h obtain B w3 where
    imgs: "processImages lib (var_lc var) (var_diffims var) (res_batch res)
           (the (map_of d B)) w3 = (Inr (res_images res), w')"
    by (elim conjE) (erule processBarcode_stages)
  with off have "processImages lib False False (res_batch res) (the (map_of d B)) w3 =
      (Inr (res_images res), w')"
    by simp
  from processImages_Inr [OF this]
  show "\<forall>r \<in> set (res_images res).
         res_threshadj r = thresh (res_batch res) \<and>
         openImage lib (res_FILENAME r) = Inr (res_im r, res_arr r)"
    by (auto dest: processImage_mask(2) processImage_plain)
next
  assume "processBarcode_fp lib var_fp d w = (Inr res, w')"
  from processBarcode_fp_masks [OF this]
  show "\<forall>r \<in> set (res_images res). res_threshadj r = thresh (res_batch res)"
    by blast
qed

text \<open>Claim C6 on the example plate with \<^verbatim>\<open>-f 5\<close>.\<close>

theorem threshold_unadjusted_without_correction_witness:
  "parseArgs example_lib ''-f 5'' = Inr (default_args\<lparr>fixthresh := Some 5\<rparr>) \<and>
   \<not> lc (default_args\<lparr>fixthresh := Some 5\<rparr>) \<and>
   buildVars example_lib ''-f 5'' = Inr example_vars \<and>
   (\<exists>res w'. processBarcode example_lib example_vars example_barcdict example_world = (Inr res, w') \<and>
      list_all (\<lambda>r. res_threshadj r = thresh (res_batch res) \<and>
                  openImage example_lib (res_FILENAME r) = Inr (res_im r, res_arr r))
        (res_images res)) \<and>
   (\<exists>res w'. processBarcode_fp example_lib example_vars_fp example_barcdict example_world =
        (Inr res, w') \<and>
      list_all (\<lambda>r. res_threshadj r = thresh (res_batch res)) (res_images res))"
proof -
  from example_run obtain res w' where
    run: "processBarcode example_lib example_vars example_barcdict example_world = (Inr res, w')"
    by blast
  from example_run_fp obtain res2 w2 where
    run2: "processBarcode_fp example_lib example_vars_fp example_barcdict example_world =
             (Inr res2, w2)"
    by blast
  have off: "\<not> lc (default_args\<lparr>fixthresh := Some 5\<rparr>)"
    by (simp add: default_args_def)
  from threshold_unadjusted_without_correction [of example_lib "''-f 5''"
      "default_args\<lparr>fixthresh := Some 5\<rparr>" example_vars example_barcdict example_world res w'
      example_vars_fp]
    example_parse_f5 off example_buildVars run
  have a: "list_all (\<lambda>r. res_threshadj r = thresh (res_batch res) \<and>
                  openImage example_lib (res_FILENAME r) = Inr (res_im r, res_arr r))
        (res_images res)"
    by (simp add: list_all_iff)
  from threshold_unadjusted_without_correction [of example_lib "''-f 5''"
      "default_args\<lparr>fixthresh := Some 5\<rparr>" example_vars example_barcdict example_world res2 w2
      example_vars_fp] run2
  have b: "list_all (\<lambda>r. res_threshadj r = thresh (res_batch res2)) (res_images res2)"
    by (simp add: list_all_iff)
  from a b run run2 example_parse_f5 off example_buildVars show ?thesis
    by blast
qed

subsection \<open>Fixed and fitted thresholds\<close>

lemma buildVars_fp_Inr:
  assumes "parseArgs_fp lib s = Inr inp" and "buildVars_fp lib s verbose = Inr var"
  shows "var_fixedThresh_fp var = (case fixthresh_fp inp of Some t \<Rightarrow> t | None \<Rightarrow> - 99)"
    and "var_lc_fp var = lc_fp inp"
  using assms
  by (auto simp: buildVars_fp_def bind_err_def Let_def split: sum.splits prod.splits)

lemma fit_calls_opens_only:
  assumes "opens_only m"
  shows "fit_calls (trace (snd (m w))) = fit_calls (trace w)"
proof -
  from opens_onlyD [OF assms, of w "fst (m w)" "snd (m w)"]
  obtain ps where "trace (snd (m w)) = trace w @ map OpenImage ps"
    by auto
  then show ?thesis
    by (simp add: fit_calls_append fit_calls_opens)
qed

lemma processBarcode_fit:
  assumes neg: "var_fixedThresh var < 0"
    and run: "processBarcode lib var d w = (Inr res, w')"
  shows "\<exists>win bd.
           trimWindow lib (locationsN (res_batch res)) (dx (res_batch res)) (dy (res_batch res))
             (arrN (res_batch res)) = Inr win \<and>
           automaticThreshold lib (slice2 win (corrected_arrN (res_batch res))) =
             Inr (thresh (res_batch res), bd) \<and>
           fit_calls (trace w') =
             fit_calls (trace w) @ [slice2 win (corrected_arrN (res_batch res))]"
proof -
  from run obtain B imdir InsData L E imRoot imN im0 a0 w1 w2 w3 where
    w1: "w1 = w\<lparr>files := AList.update (lockPath E) Empty
              (if var_plots var
               then AList.update (outputPath E ''Output_Reports'' ''.pdf'') Report (files w)
               else files w)\<rparr>"
    and opn: "openLatestEarliest lib L E w1 =
                (Inr ((imN, arrN (res_batch res)), (im0, a0)), w2)"
    and seg: "segmentation lib (var_fixedThresh var) (locationsN (res_batch res))
           (dx (res_batch res)) (dy (res_batch res)) (arrN (res_batch res))
           (corrected_arrN (res_batch res)) w2 =
           (Inr (thresh (res_batch res), maskN (res_batch res)), w3)"
    and imgs: "processImages lib (var_lc var) (var_diffims var) (res_batch res)
           (the (map_of d B)) w3 = (Inr (res_images res), w')"
    by (rule processBarcode_stages)
  from openLatestEarliest_Inr(2) [OF opn] w1
  have t2: "fit_calls (trace w2) = fit_calls (trace w)"
    by (simp add: fit_calls_append fit_calls_opens)
  from segmentation_auto [OF neg seg] obtain win bd where
    win: "trimWindow lib (locationsN (res_batch res)) (dx (res_batch res)) (dy (res_batch res))
             (arrN (res_batch res)) = Inr win"
    and fit: "automaticThreshold lib (slice2 win (corrected_arrN (res_batch res))) =
             Inr (thresh (res_batch res), bd)"
    and w3: "w3 = w2\<lparr>trace := trace w2 @
                  [AutomaticThreshold (slice2 win (corrected_arrN (res_batch res)))]\<rparr>"
    by (elim exE conjE) (rule that)
  from w3 t2 have t3: "fit_calls (trace w3) =
      fit_calls (trace w) @ [slice2 win (corrected_arrN (res_batch res))]"
    by (simp add: fit_calls_append)
  from fit_calls_opens_only [OF opens_only_processImages,
      of lib "var_lc var" "var_diffims var" "res_batch res" "the (map_of d B)" w3] imgs
  have "fit_calls (trace w') = fit_calls (trace w3)"
    by simp
  with t3 win fit show ?thesis
    by auto
qed

lemma processBarcode_fp_fit:
  assumes neg: "var_fixedThresh_fp var < 0"
    and run: "processBarcode_fp lib var d w = (Inr res, w')"
  shows "\<exists>win bd.
           trimWindow lib (locationsN (res_batch res)) (dx (res_batch res)) (dy (res_batch res))
             (arrN (res_batch res)) = Inr win \<and>
           automaticThreshold lib (slice2 win (arrN (res_batch res))) =
             Inr (thresh (res_batch res), bd) \<and>
           fit_calls (trace w') = fit_calls (trace w) @ [slice2 win (arrN (res_batch res))]"
proof -
  from run obtain B imdir InsData L E imRoot imN im0 a0 w2 w3 where
    w2: "w2 = w\<lparr>files := AList.update (lockPath E) Empty (files w),
                  trace := trace w @ [OpenImage L, OpenImage E]\<rparr>"
    and seg: "segmentation_fp lib (var_fixedThresh_fp var) (var_threshplots_fp var) B
           (locationsN (res_batch res)) (dx (res_batch res)) (dy (res_batch res))
           (arrN (res_batch res)) w2 =
           (Inr (thresh (res_batch res), maskN (res_batch res)), w3)"
    and imgs: "processImages_fp lib (var_lc_fp var) (res_batch res) (the (map_of d B)) w3 =
           (Inr (res_images res), w')"
    by (rule processBarcode_fp_stages)
  from w2 have t2: "fit_calls (trace w2) = fit_calls (trace w)"
    by (simp add: fit_calls_append)
  from segmentation_fp_auto [OF neg seg] obtain win bd where
    win: "trimWindow lib (locationsN (res_batch res)) (dx (res_batch res)) (dy (res_batch res))
             (arrN (res_batch res)) = Inr win"
    and fit: "automaticThreshold lib (slice2 win (arrN (res_batch res))) =
             Inr (thresh (res_batch res), bd)"
    and w3: "trace w3 = trace w2 @ [AutomaticThreshold (slice2 win (arrN (res_batch res)))]"
    by (elim exE conjE) (rule that)
  from w3 t2 have t3: "fit_calls (trace w3) =
      fit_calls (trace w) @ [slice2 win (arrN (res_batch res))]"
    by (simp add: fit_calls_append)
  from fit_calls_opens_only [OF opens_only_processImages_fp,
      of lib "var_lc_fp var" "res_batch res" "the (map_of d B)" w3] imgs
  have "fit_calls (trace w') = fit_calls (trace w3)"
    by simp
  with t3 win fit show ?thesis
    by auto
qed

lemma processBarcode_fixed:
  assumes "0 \<le> var_fixedThresh var" and run: "processBarcode lib var d w = (Inr res, w')"
  shows "thresh (res_batch res) = var_fixedThresh var"
proof -
  from run obtain w2 w3 where
    "segmentation lib (var_fixedThresh var) (locationsN (res_batch res))
           (dx (res_batch res)) (dy (res_batch res)) (arrN (res_batch res))
           (corrected_arrN (res_batch res)) w2 =
           (Inr (thresh (res_batch res), maskN (res_batch res)), w3)"
    by (rule processBarcode_stages)
  from segmentation_fixed(1) [OF assms(1) this] show ?thesis .
qed

lemma processBarcode_fp_fixed:
  assumes "0 \<le> var_fixedThresh_fp var"
    and run: "processBarcode_fp lib var d w = (Inr res, w')"
  shows "thresh (res_batch res) = var_fixedThresh_fp var"
proof -
  from run obtain B w2 w3 where
    "segmentation_fp lib (var_fixedThresh_fp var) (var_threshplots_fp var) B
           (locationsN (res_batch res)) (dx (res_batch res)) (dy (res_batch res))
           (arrN (res_batch res)) w2 =
           (Inr (thresh (res_batch res), maskN (res_batch res)), w3)"
    by (rule processBarcode_fp_stages)
  from segmentation_fp_fixed(1) [OF assms(1) this] show ?thesis .
qed

text \<open>What \<^verbatim>\<open>buildVars\<close> returns for \<^verbatim>\<open>-o 384\<close>: no fixed threshold.\<close>

lemma example_parse_o384: "parseArgs example_lib ''-o 384'' = Inr default_args"
  by (simp add: parseArgs_def example_lib_def example_split_def example_parse_def)

lemma example_buildVars_auto:
  "buildVars example_lib ''-o 384'' = Inr (example_vars\<lparr>var_fixedThresh := - 99\<rparr>)"
  by (simp add: buildVars_def buildVars_options_def bind_err_def gridFormat_def fdictOf_def
        parseArgs_def example_lib_def example_split_def example_parse_def default_args_def
        example_vars_def)

lemma example_parse_fp_o384: "parseArgs_fp example_lib ''-o 384'' = Inr default_args_fp"
  by (simp add: parseArgs_fp_def example_lib_def example_split_def example_parse_fp_def)

lemma example_buildVars_fp_auto:
  "buildVars_fp example_lib ''-o 384'' True =
     Inr (example_vars_fp\<lparr>var_fixedThresh_fp := - 99\<rparr>)"
  by (simp add: buildVars_fp_def buildVars_options_def bind_err_def gridFormat_def fdictOf_def
        parseArgs_fp_def example_lib_def example_split_def example_parse_fp_def
        default_args_fp_def example_vars_fp_def)

lemma example_run_auto:
  "\<exists>res w'. processBarcode example_lib (example_vars\<lparr>var_fixedThresh := - 99\<rparr>)
     example_barcdict example_world = (Inr res, w')"
proof -
  have "case processBarcode example_lib (example_vars\<lparr>var_fixedThresh := - 99\<rparr>)
               example_barcdict example_world of
          (Inr res, w') \<Rightarrow> True | (Inl e, w') \<Rightarrow> False"
    by code_simp
  then show ?thesis
    by (auto split: prod.splits sum.splits)
qed

lemma example_run_fp_auto:
  "\<exists>res w'. processBarcode_fp example_lib (example_vars_fp\<lparr>var_fixedThresh_fp := - 99\<rparr>)
     example_barcdict example_world = (Inr res, w')"
proof -
  have "case processBarcode_fp example_lib (example_vars_fp\<lparr>var_fixedThresh_fp := - 99\<rparr>)
               example_barcdict example_world of
          (Inr res, w') \<Rightarrow> True | (Inl e, w') \<Rightarrow> False"
    by code_simp
  then show ?thesis
    by (auto split: prod.splits sum.splits)
qed

text \<open>
  Claim C5. In both scripts, when the parsed command line carries a fixed threshold
  \<open>t \<ge> 0\<close>, a pass over a barcode never calls \<^verbatim>\<open>automaticThreshold\<close>, whatever its
  outcome, and a completed pass has the base threshold \<open>t\<close>. When no fixed threshold is
  given, a completed pass has called \<^verbatim>\<open>automaticThreshold\<close> exactly once, on the
  reference array trimmed to the window that removes the plate walls (the
  lighting-corrected reference array in parseAndRun.py, the raw one in
  timecourse\_fixedpos.py), and its base threshold is the value that call returned.
\<close>

theorem fixed_threshold_or_fit:
  "(parseArgs lib s = Inr inp \<and> buildVars lib s = Inr var \<longrightarrow>
      (\<forall>t. fixthresh inp = Some t \<and> 0 \<le> t \<longrightarrow>
         fit_calls (trace (snd (processBarcode lib var d w))) = fit_calls (trace w) \<and>
         (\<forall>res w'. processBarcode lib var d w = (Inr res, w') \<longrightarrow>
            thresh (res_batch res) = t)) \<and>
      (fixthresh inp = None \<longrightarrow>
         (\<forall>res w'. processBarcode lib var d w = (Inr res, w') \<longrightarrow>
            (\<exists>win bd.
               trimWindow lib (locationsN (res_batch res)) (dx (res_batch res))
                 (dy (res_batch res)) (arrN (res_batch res)) = Inr win \<and>
               automaticThreshold lib (slice2 win (corrected_arrN (res_batch res))) =
                 Inr (thresh (res_batch res), bd) \<and>
               fit_calls (trace w') =
                 fit_calls (trace w) @ [slice2 win (corrected_arrN (res_batch res))])))) \<and>
   (parseArgs_fp lib s = Inr inp_fp \<and> buildVars_fp lib s verbose = Inr var_fp \<longrightarrow>
      (\<forall>t. fixthresh_fp inp_fp = Some t \<and> 0 \<le> t \<longrightarrow>
         fit_calls (trace (snd (processBarcode_fp lib var_fp d w))) = fit_calls (trace w) \<and>
         (\<forall>res w'. processBarcode_fp lib var_fp d w = (Inr res, w') \<longrightarrow>
            thresh (res_batch res) = t)) \<and>
      (fixthresh_fp inp_fp = None \<longrightarrow>
         (\<forall>res w'. processBarcode_fp lib var_fp d w = (Inr res, w') \<longrightarrow>
            (\<exists>win bd.
               trimWindow lib (locationsN (res_batch res)) (dx (res_batch res))
                 (dy (res_batch res)) (arrN (res_batch res)) = Inr win \<and>
               automaticThreshold lib (slice2 win (arrN (res_batch res))) =
                 Inr (thresh (res_batch res), bd) \<and>
               fit_calls (trace w') =
                 fit_calls (trace w) @ [slice2 win (arrN (res_batch res))]))))"
proof (intro conjI impI allI)
  fix t
  assume h: "parseArgs lib s = Inr inp \<and> buildVars lib s = Inr var"
    and t: "fixthresh inp = Some t \<and> 0 \<le> t"
  with buildVars_Inr(5) [of lib s inp var] have ft: "var_fixedThresh var = t" "0 \<le> t"
    by simp_all
  then have nn: "0 \<le> var_fixedThresh var"
    by simp
  show "fit_calls (trace (snd (processBarcode lib var d w))) = fit_calls (trace w)"
    by (rule fit_calls_opens_only [OF opens_only_processBarcode [OF nn]])
  fix res w'
  assume "processBarcode lib var d w = (Inr res, w')"
  from processBarcode_fixed [OF nn this] ft show "thresh (res_batch res) = t"
    by simp
next
  fix res w'
  assume h: "parseArgs lib s = Inr inp \<and> buildVars lib s = Inr var"
    and t: "fixthresh inp = None"
    and run: "processBarcode lib var d w = (Inr res, w')"
  with buildVars_Inr(5) [of lib s inp var] have "var_fixedThresh var < 0"
    by simp
  from processBarcode_fit [OF this run]
  show "\<exists>win bd.
               trimWindow lib (locationsN (res_batch res)) (dx (res_batch res))
                 (dy (res_batch res)) (arrN (res_batch res)) = Inr win \<and>
               automaticThreshold lib (slice2 win (corrected_arrN (res_batch res))) =
                 Inr (thresh (res_batch res), bd) \<and>
               fit_calls (trace w') =
                 fit_calls (trace w) @ [slice2 win (corrected_arrN (res_batch res))]" .
next
  fix t
  assume h: "parseArgs_fp lib s = Inr inp_fp \<and> buildVars_fp lib s verbose = Inr var_fp"
    and t: "fixthresh_fp inp_fp = Some t \<and> 0 \<le> t"
  with buildVars_fp_Inr(1) [of lib s inp_fp verbose var_fp]
  have ft: "var_fixedThresh_fp var_fp = t" "0 \<le> t"
    by simp_all
  then have nn: "0 \<le> var_fixedThresh_fp var_fp"
    by simp
  show "fit_calls (trace (snd (processBarcode_fp lib var_fp d w))) = fit_calls (trace w)"
    by (rule fit_calls_opens_only [OF opens_only_processBarcode_fp [OF nn]])
  fix res w'
  assume "processBarcode_fp lib var_fp d w = (Inr res, w')"
  from processBarcode_fp_fixed [OF nn this] ft show "thresh (res_batch res) = t"
    by simp
next
  fix res w'
  assume h: "parseArgs_fp lib s = Inr inp_fp \<and> buildVars_fp lib s verbose = Inr var_fp"
    and t: "fixthresh_fp inp_fp = None"
    and run: "processBarcode_fp lib var_fp d w = (Inr res, w')"
  with buildVars_fp_Inr(1) [of lib s inp_fp verbose var_fp] have "var_fixedThresh_fp var_fp < 0"
    by simp
  from processBarcode_fp_fit [OF this run]
  show "\<exists>win bd.
               trimWindow lib (locationsN (res_batch res)) (dx (res_batch res))
                 (dy (res_batch res)) (arrN (res_batch res)) = Inr win \<and>
               automaticThreshold lib (slice2 win (arrN (res_batch res))) =
                 Inr (thresh (res_batch res), bd) \<and>
               fit_calls (trace w') =
                 fit_calls (trace w) @ [slice2 win (arrN (res_batch res))]" .
qed

text \<open>Claim C5 on the example plate: \<^verbatim>\<open>-f 5\<close> and \<^verbatim>\<open>-o 384\<close> (no fixed threshold) in
  both scripts.\<close>

theorem fixed_threshold_or_fit_witness:
  "(parseArgs example_lib ''-f 5'' = Inr (default_args\<lparr>fixthresh := Some 5\<rparr>) \<and>
    buildVars example_lib ''-f 5'' = Inr example_vars \<and>
    fixthresh (default_args\<lparr>fixthresh := Some 5\<rparr>) = Some 5 \<and> (0::rat) \<le> 5 \<and>
    fit_calls (trace (snd (processBarcode example_lib example_vars example_barcdict
      example_world))) = fit_calls (trace example_world) \<and>
    (\<exists>res w'. processBarcode example_lib example_vars example_barcdict example_world =
        (Inr res, w') \<and> thresh (res_batch res) = 5)) \<and>
   (parseArgs example_lib ''-o 384'' = Inr default_args \<and>
    buildVars example_lib ''-o 384'' = Inr (example_vars\<lparr>var_fixedThresh := - 99\<rparr>) \<and>
    fixthresh default_args = None \<and>
    (\<exists>res w' win bd.
       processBarcode example_lib (example_vars\<lparr>var_fixedThresh := - 99\<rparr>) example_barcdict
         example_world = (Inr res, w') \<and>
       trimWindow example_lib (locationsN (res_batch res)) (dx (res_batch res))
         (dy (res_batch res)) (arrN (res_batch res)) = Inr win \<and>
       automaticThreshold example_lib (slice2 win (corrected_arrN (res_batch res))) =
         Inr (thresh (res_batch res), bd) \<and>
       fit_calls (trace w') =
         fit_calls (trace example_world) @ [slice2 win (corrected_arrN (res_batch res))])) \<and>
   (parseArgs_fp example_lib ''-f 5'' = Inr (default_args_fp\<lparr>fixthresh_fp := Some 5\<rparr>) \<and>
    buildVars_fp example_lib ''-f 5'' True = Inr example_vars_fp \<and>
    fit_calls (trace (snd (processBarcode_fp example_lib example_vars_fp example_barcdict
      example_world))) = fit_calls (trace example_world) \<and>
    (\<exists>res w'. processBarcode_fp example_lib example_vars_fp example_barcdict example_world =
        (Inr res, w') \<and> thresh (res_batch res) = 5)) \<and>
   (parseArgs_fp example_lib ''-o 384'' = Inr default_args_fp \<and>
    buildVars_fp example_lib ''-o 384'' True =
      Inr (example_vars_fp\<lparr>var_fixedThresh_fp := - 99\<rparr>) \<and>
    (\<exists>res w' win bd.
       processBarcode_fp example_lib (example_vars_fp\<lparr>var_fixedThresh_fp := - 99\<rparr>)
         example_barcdict example_world = (Inr res, w') \<and>
       trimWindow example_lib (locationsN (res_batch res)) (dx (res_batch res))
         (dy (res_batch res)) (arrN (res_batch res)) = Inr win \<and>
       automaticThreshold example_lib (slice2 win (arrN (res_batch res))) =
         Inr (thresh (res_batch res), bd) \<and>
       fit_calls (trace w') =
         fit_calls (trace example_world) @ [slice2 win (arrN (res_batch res))]))"
proof -
  have f5: "fixthresh (default_args\<lparr>fixthresh := Some 5\<rparr>) = Some 5" "(0::rat) \<le> 5"
    "fixthresh default_args = None"
    "fixthresh_fp (default_args_fp\<lparr>fixthresh_fp := Some 5\<rparr>) = Some 5"
    "fixthresh_fp default_args_fp = None"
    by (simp_all add: default_args_def default_args_fp_def)
  from example_run obtain r1 v1 where
    run1: "processBarcode example_lib example_vars example_barcdict example_world = (Inr r1, v1)"
    by blast
  from example_run_auto obtain r2 v2 where
    run2: "processBarcode example_lib (example_vars\<lparr>var_fixedThresh := - 99\<rparr>) example_barcdict
             example_world = (Inr r2, v2)"
    by blast
  from example_run_fp obtain r3 v3 where
    run3: "processBarcode_fp example_lib example_vars_fp example_barcdict example_world =
             (Inr r3, v3)"
    by blast
  from example_run_fp_auto obtain r4 v4 where
    run4: "processBarcode_fp example_lib (example_vars_fp\<lparr>var_fixedThresh_fp := - 99\<rparr>)
             example_barcdict example_world = (Inr r4, v4)"
    by blast
  from fixed_threshold_or_fit [where lib = example_lib and s = "''-f 5''"
      and inp = "default_args\<lparr>fixthresh := Some 5\<rparr>" and var = example_vars
      and d = example_barcdict and w = example_world
      and inp_fp = "default_args_fp\<lparr>fixthresh_fp := Some 5\<rparr>" and verbose = True
      and var_fp = example_vars_fp]
    example_parse_f5 example_buildVars example_parse_fp_f5 example_buildVars_fp f5 run1 run3
  have a: "fit_calls (trace (snd (processBarcode example_lib example_vars example_barcdict
      example_world))) = fit_calls (trace example_world)"
    "thresh (res_batch r1) = 5"
    "fit_calls (trace (snd (processBarcode_fp example_lib example_vars_fp example_barcdict
      example_world))) = fit_calls (trace example_world)"
    "thresh (res_batch r3) = 5"
    by simp_all
  from fixed_threshold_or_fit [where lib = example_lib and s = "''-o 384''"
      and inp = default_args and var = "example_vars\<lparr>var_fixedThresh := - 99\<rparr>"
      and d = example_barcdict and w = example_world
      and inp_fp = default_args_fp and verbose = True
      and var_fp = "example_vars_fp\<lparr>var_fixedThresh_fp := - 99\<rparr>"]
    example_parse_o384 example_buildVars_auto example_parse_fp_o384 example_buildVars_fp_auto
    f5 run2 run4
  have b: "\<exists>win bd.
       trimWindow example_lib (locationsN (res_batch r2)) (dx (res_batch r2))
         (dy (res_batch r2)) (arrN (res_batch r2)) = Inr win \<and>
       automaticThreshold example_lib (slice2 win (corrected_arrN (res_batch r2))) =
         Inr (thresh (res_batch r2), bd) \<and>
       fit_calls (trace v2) =
         fit_calls (trace example_world) @ [slice2 win (corrected_arrN (res_batch r2))]"
    "\<exists>win bd.
       trimWindow example_lib (locationsN (res_batch r4)) (dx (res_batch r4))
         (dy (res_batch r4)) (arrN (res_batch r4)) = Inr win \<and>
       automaticThreshold example_lib (slice2 win (arrN (res_batch r4))) =
         Inr (thresh (res_batch r4), bd) \<and>
       fit_calls (trace v4) =
         fit_calls (trace example_world) @ [slice2 win (arrN (res_batch r4))]"
    by simp_all
  have p1: "\<exists>res w'. processBarcode example_lib example_vars example_barcdict example_world =
        (Inr res, w') \<and> thresh (res_batch res) = 5"
    using run1 a(2) by blast
  have p3: "\<exists>res w'. processBarcode_fp example_lib example_vars_fp example_barcdict
        example_world = (Inr res, w') \<and> thresh (res_batch res) = 5"
    using run3 a(4) by blast
  have p2: "\<exists>res w' win bd.
       processBarcode example_lib (example_vars\<lparr>var_fixedThresh := - 99\<rparr>) example_barcdict
         example_world = (Inr res, w') \<and>
       trimWindow example_lib (locationsN (res_batch res)) (dx (res_batch res))
         (dy (res_batch res)) (arrN (res_batch res)) = Inr win \<and>
       automaticThreshold example_lib (slice2 win (corrected_arrN (res_batch res))) =
         Inr (thresh (res_batch res), bd) \<and>
       fit_calls (trace w') =
         fit_calls (trace example_world) @ [slice2 win (corrected_arrN (res_batch res))]"
    using run2 b(1) by blast
  have p4: "\<exists>res w' win bd.
       processBarcode_fp example_lib (example_vars_fp\<lparr>var_fixedThresh_fp := - 99\<rparr>)
         example_barcdict example_world = (Inr res, w') \<and>
       trimWindow example_lib (locationsN (res_batch res)) (dx (res_batch res))
         (dy (res_batch res)) (arrN (res_batch res)) = Inr win \<and>
       automaticThreshold example_lib (slice2 win (arrN (res_batch res))) =
         Inr (thresh (res_batch res), bd) \<and>
       fit_calls (trace w') =
         fit_calls (trace example_world) @ [slice2 win (arrN (res_batch res))]"
    using run4 b(2) by blast
  show ?thesis
    by (intro conjI example_parse_f5 example_buildVars example_parse_fp_f5
        example_buildVars_fp example_parse_o384 example_buildVars_auto example_parse_fp_o384
        example_buildVars_fp_auto f5 a(1) a(3) p1 p2 p3 p4)
qed

end
